theory Spec2Isabelle
  imports Main
begin

section \<open>Strings\<close>

text \<open>
  The server works on JavaScript strings. Here a string is a list of 8-bit characters
  (text in UTF-8), and the character classes below are the ASCII ones: \<open>toLowerCase\<close>
  maps \<open>A\<close>..\<open>Z\<close> to \<open>a\<close>..\<open>z\<close> and leaves every other character alone, \<open>\s\<close> is
  the six ASCII blanks, \<open>\d\<close> is \<open>0\<close>..\<open>9\<close> and \<open>\w\<close> is letters, digits and the
  underscore. Every keyword, trigger phrase and pattern of the server is ASCII.

  On text of ASCII characters these are the operations of JavaScript. On other text
  JavaScript does more: \<open>toLowerCase\<close> maps U+212A (the Kelvin sign) to \<open>k\<close>, and
  \<open>trim\<close> and \<open>\s\<close> also take U+00A0 and the other Unicode blanks. A statement below
  whose truth for the server depends on this difference is made for ASCII text
  (\<open>asciiText\<close>); a statement made for every text is one that the server's own
  lower-casing satisfies as well.
\<close>

definition upperToLower :: "(char \<times> char) list" where
  "upperToLower = zip ''ABCDEFGHIJKLMNOPQRSTUVWXYZ'' ''abcdefghijklmnopqrstuvwxyz''"

definition toLowerChar :: "char \<Rightarrow> char" where
  "toLowerChar c = (case map_of upperToLower c of Some l \<Rightarrow> l | None \<Rightarrow> c)"

definition toLowerCase :: "string \<Rightarrow> string" where
  "toLowerCase s = map toLowerChar s"

definition asciiText :: "string \<Rightarrow> bool" where
  "asciiText s = list_all (\<lambda>c. \<not> digit7 c) s"

definition isSpace :: "char \<Rightarrow> bool" where
  "isSpace c = (c \<in> set [CHR '' '', CHR 0x09, CHR 0x0A, CHR 0x0B, CHR 0x0C, CHR 0x0D])"

definition isDigit :: "char \<Rightarrow> bool" where
  "isDigit c = (c \<in> set ''0123456789'')"

definition isWordChar :: "char \<Rightarrow> bool" where
  "isWordChar c = (c \<in> set
     ''ABCDEFGHIJKLMNOPQRSTUVWXYZabcdefghijklmnopqrstuvwxyz0123456789_'')"

definition trim :: "string \<Rightarrow> string" where
  "trim s = rev (dropWhile isSpace (rev (dropWhile isSpace s)))"

text \<open>\<open>String.prototype.startsWith\<close> and \<open>String.prototype.includes\<close>.\<close>

fun startsWith :: "string \<Rightarrow> string \<Rightarrow> bool" where
  "startsWith s [] = True"
| "startsWith [] (k # ks) = False"
| "startsWith (c # cs) (k # ks) = (c = k \<and> startsWith cs ks)"

fun str_includes :: "string \<Rightarrow> string \<Rightarrow> bool" where
  "str_includes [] k = (k = [])"
| "str_includes (c # cs) k = (startsWith (c # cs) k \<or> str_includes cs k)"

text \<open>
  An optional string of the source (\<open>null\<close> or a string) is a \<open>string option\<close>; in a
  condition JavaScript takes \<open>null\<close> and the empty string as false.
\<close>

definition truthy :: "string option \<Rightarrow> bool" where
  "truthy v = (case v of None \<Rightarrow> False | Some s \<Rightarrow> s \<noteq> [])"

definition strOf :: "string option \<Rightarrow> string" where
  "strOf v = (case v of None \<Rightarrow> [] | Some s \<Rightarrow> s)"

text \<open>\<open>parseInt\<close> on a run of decimal digits, and the decimal numeral of a number.\<close>

definition digitVal :: "char \<Rightarrow> nat" where
  "digitVal c = length (takeWhile (\<lambda>d. d \<noteq> c) ''0123456789'')"

definition parseInt :: "string \<Rightarrow> nat" where
  "parseInt ds = fold (\<lambda>c n. 10 * n + digitVal c) ds 0"

fun showNat :: "nat \<Rightarrow> string" where
  "showNat n = (if n < 10 then [''0123456789'' ! n]
                else showNat (n div 10) @ [''0123456789'' ! (n mod 10)])"

declare showNat.simps [simp del]

text \<open>
  The glyphs outside ASCII that the server writes into its replies, as UTF-8 bytes.
\<close>

definition warningSign :: string where
  "warningSign = [CHR 0xE2, CHR 0x9A, CHR 0xA0, CHR 0xEF, CHR 0xB8, CHR 0x8F]"

definition sirenSign :: string where
  "sirenSign = [CHR 0xF0, CHR 0x9F, CHR 0x9A, CHR 0xA8]"

definition degreeSign :: string where
  "degreeSign = [CHR 0xC2, CHR 0xB0]"

section \<open>Regular expressions of the server\<close>

text \<open>
  The patterns of the server have two shapes. The first is \<open>/\b(a1|a2|...)\b/\<close>: some
  alternative occurs with a word boundary on each side. \<open>\b\<close> holds between two
  positions when exactly one of the neighbouring characters is a word character (the
  ends of the text count as non-word). The search goes left to right and, at one
  position, through the alternatives in their order, as the backtracking matcher does;
  the result is the matched alternative.
\<close>

definition optWord :: "char option \<Rightarrow> bool" where
  "optWord c = (case c of None \<Rightarrow> False | Some x \<Rightarrow> isWordChar x)"

definition wordBoundary :: "char option \<Rightarrow> char option \<Rightarrow> bool" where
  "wordBoundary p n = (optWord p \<noteq> optWord n)"

definition headOpt :: "string \<Rightarrow> char option" where
  "headOpt s = (case s of [] \<Rightarrow> None | c # _ \<Rightarrow> Some c)"

definition lastOr :: "char option \<Rightarrow> string \<Rightarrow> char option" where
  "lastOr p s = (if s = [] then p else Some (last s))"

definition altMatchesAt :: "char option \<Rightarrow> string \<Rightarrow> string \<Rightarrow> bool" where
  "altMatchesAt prev s alt =
     (startsWith s alt \<and> wordBoundary prev (headOpt s) \<and>
      wordBoundary (lastOr prev alt) (headOpt (drop (length alt) s)))"

fun wordAltSearch :: "char option \<Rightarrow> string list \<Rightarrow> string \<Rightarrow> string option" where
  "wordAltSearch prev alts [] =
     (case filter (altMatchesAt prev []) alts of [] \<Rightarrow> None | a # _ \<Rightarrow> Some a)"
| "wordAltSearch prev alts (c # cs) =
     (case filter (altMatchesAt prev (c # cs)) alts of
        [] \<Rightarrow> wordAltSearch (Some c) alts cs
      | a # _ \<Rightarrow> Some a)"

definition wordAltMatch :: "string list \<Rightarrow> string \<Rightarrow> string option" where
  "wordAltMatch alts s = wordAltSearch None alts s"

definition wordAltTest :: "string list \<Rightarrow> string \<Rightarrow> bool" where
  "wordAltTest alts s = (wordAltMatch alts s \<noteq> None)"

text \<open>
  The second shape is a duration, \<open>(\d+)\s*(unit1|unit2|...)\<close>, matched without regard
  to case, with or without the two \<open>\b\<close>. At one position the digit run and the blank
  run are the longest ones (a shorter run leaves a digit or a blank where a unit has to
  start), and the unit is the first alternative in order that fits. The result is the
  pair of captured groups, in the text's own case.
\<close>

definition durationAt ::
  "bool \<Rightarrow> string list \<Rightarrow> char option \<Rightarrow> string \<Rightarrow> (string \<times> string) option" where
  "durationAt bounded units prev s =
     (let ds = takeWhile isDigit s;
          r = dropWhile isSpace (dropWhile isDigit s);
          fits = (\<lambda>u. startsWith (toLowerCase r) u \<and>
                    (if bounded then wordBoundary (lastOr None u) (headOpt (drop (length u) r))
                     else True))
      in if ds = [] \<or> (bounded \<and> optWord prev) then None
         else (case filter fits units of
                 [] \<Rightarrow> None
               | u # _ \<Rightarrow> Some (ds, take (length u) r)))"

fun durationSearch ::
  "bool \<Rightarrow> string list \<Rightarrow> char option \<Rightarrow> string \<Rightarrow> (string \<times> string) option" where
  "durationSearch bounded units prev [] = None"
| "durationSearch bounded units prev (c # cs) =
     (case durationAt bounded units prev (c # cs) of
        Some m \<Rightarrow> Some m
      | None \<Rightarrow> durationSearch bounded units (Some c) cs)"

section \<open>Sentiment\<close>

datatype sentiment = Positive | Negative | Neutral

definition positiveWords :: "string list" where
  "positiveWords = [''good'', ''great'', ''better'', ''improving'', ''fine'', ''ok'',
     ''okay'', ''well'', ''thanks'', ''thank you'']"

definition negativeWords :: "string list" where
  "negativeWords = [''bad'', ''worse'', ''terrible'', ''awful'', ''pain'', ''hurt'',
     ''sick'', ''worried'', ''concerned'', ''scared'']"

text \<open>
  \<open>analyzeSentiment\<close>: the two \<open>forEach\<close> loops over the lexicons, each adding or
  subtracting one when the lower-cased message includes the word.
\<close>

definition analyzeSentiment :: "string \<Rightarrow> sentiment" where
  "analyzeSentiment message =
     (let msg = toLowerCase message;
          score = (0 :: int);
          score = fold (\<lambda>word sc. if str_includes msg word then sc + 1 else sc)
                    positiveWords score;
          score = fold (\<lambda>word sc. if str_includes msg word then sc - 1 else sc)
                    negativeWords score
      in if score > 0 then Positive else if score < 0 then Negative else Neutral)"

text \<open>
  The specification's reading, for comparison: every occurrence of a lexicon word in
  the text counts, so a word that occurs twice counts twice.
\<close>

fun spec_countOccurrences :: "string \<Rightarrow> string \<Rightarrow> nat" where
  "spec_countOccurrences [] k = 0"
| "spec_countOccurrences (c # cs) k =
     (if startsWith (c # cs) k then 1 else 0) + spec_countOccurrences cs k"

definition spec_analyzeSentiment :: "string \<Rightarrow> sentiment" where
  "spec_analyzeSentiment message =
     (let msg = toLowerCase message;
          score = int (sum_list (map (spec_countOccurrences msg) positiveWords))
                - int (sum_list (map (spec_countOccurrences msg) negativeWords))
      in if score > 0 then Positive else if score < 0 then Negative else Neutral)"

section \<open>Triage\<close>

datatype level = LvEmergency | LvUrgent | LvModerate | LvRoutine

datatype urgency = CRITICAL | HIGH | MEDIUM | LOW

record triageLevelInfo =
  tl_keywords :: "string list"
  tl_priority :: nat
  tl_action :: string

definition emergencyLevel :: triageLevelInfo where
  "emergencyLevel = \<lparr>tl_keywords = [''chest pain'', ''can't breathe'',
       ''unconscious'', ''severe bleeding'', ''heart attack'', ''stroke''],
     tl_priority = 1, tl_action = ''Call 911 immediately''\<rparr>"

definition urgentLevel :: triageLevelInfo where
  "urgentLevel = \<lparr>tl_keywords = [''high fever'', ''severe pain'', ''difficulty breathing'',
       ''persistent vomiting''],
     tl_priority = 2, tl_action = ''Seek emergency care or urgent care within hours''\<rparr>"

definition moderateLevel :: triageLevelInfo where
  "moderateLevel = \<lparr>tl_keywords = [''moderate pain'', ''fever'', ''persistent symptoms''],
     tl_priority = 3, tl_action = ''Schedule appointment within 24-48 hours''\<rparr>"

definition routineLevel :: triageLevelInfo where
  "routineLevel = \<lparr>tl_keywords = [''mild symptoms'', ''wellness'', ''preventive''],
     tl_priority = 4, tl_action = ''Schedule routine appointment''\<rparr>"

record triage =
  triageLevel :: level
  priority :: nat
  action :: string
  urgency :: urgency

record symptomInfo =
  si_symptoms :: "string list"
  si_duration :: "string option"
  si_severity :: "string option"

text \<open>The process-wide counters; only the emergency counter is read by the properties.\<close>

record analytics =
  emergencyCount :: nat

definition triageDurationUnits :: "string list" where
  "triageDurationUnits = [''day'', ''days'', ''week'', ''weeks'', ''month'', ''months'']"

text \<open>
  The duration rule of the ladder: the first \<open>(\d+)\s*(day|days|week|weeks|month|months)\<close>
  in the duration text, taken as long when it counts two weeks or more, or any months.
\<close>

definition durationIsLong :: "string \<Rightarrow> bool" where
  "durationIsLong d =
     (case durationSearch False triageDurationUnits None d of
        None \<Rightarrow> False
      | Some (numStr, unitStr) \<Rightarrow>
          (let num = parseInt numStr; unit = toLowerCase unitStr
           in (str_includes unit ''week'' \<and> num \<ge> 2) \<or> str_includes unit ''month''))"

text \<open>
  \<open>performTriage\<close>: the decision ladder, each rule returning at once. The counter of
  the module is passed in and returned.
\<close>

definition performTriage :: "string \<Rightarrow> symptomInfo \<Rightarrow> analytics \<Rightarrow> triage \<times> analytics" where
  "performTriage message info an =
     (let msg = toLowerCase message in
      if list_ex (str_includes msg) (tl_keywords emergencyLevel) then
        (\<lparr>triageLevel = LvEmergency, priority = 1, action = tl_action emergencyLevel,
          urgency = CRITICAL\<rparr>, an\<lparr>emergencyCount := emergencyCount an + 1\<rparr>)
      else if list_ex (str_includes msg) (tl_keywords urgentLevel) then
        (\<lparr>triageLevel = LvUrgent, priority = 2, action = tl_action urgentLevel,
          urgency = HIGH\<rparr>, an)
      else if truthy (si_severity info) \<and>
              toLowerCase (strOf (si_severity info)) \<in> set [''severe'', ''intense'', ''extreme''] then
        (\<lparr>triageLevel = LvUrgent, priority = 2, action = tl_action urgentLevel,
          urgency = HIGH\<rparr>, an)
      else if truthy (si_severity info) \<and>
              toLowerCase (strOf (si_severity info)) \<in> set [''moderate''] then
        (\<lparr>triageLevel = LvModerate, priority = 3, action = tl_action moderateLevel,
          urgency = MEDIUM\<rparr>, an)
      else if truthy (si_duration info) \<and> durationIsLong (strOf (si_duration info)) then
        (\<lparr>triageLevel = LvModerate, priority = 3, action = tl_action moderateLevel,
          urgency = MEDIUM\<rparr>, an)
      else
        (\<lparr>triageLevel = LvRoutine, priority = 4, action = ''Schedule routine appointment'',
          urgency = LOW\<rparr>, an))"

section \<open>Medication interactions\<close>

record medInfo =
  mi_interactions :: "string list"
  mi_warnings :: string

definition medicationInteractions :: "(string \<times> medInfo) list" where
  "medicationInteractions =
     [(''aspirin'', \<lparr>mi_interactions = [''warfarin'', ''ibuprofen'', ''naproxen''],
         mi_warnings = ''May increase bleeding risk when combined with blood thinners''\<rparr>),
      (''ibuprofen'', \<lparr>mi_interactions = [''aspirin'', ''warfarin'', ''lithium''],
         mi_warnings = ''Can increase risk of stomach bleeding and kidney problems''\<rparr>),
      (''warfarin'', \<lparr>mi_interactions = [''aspirin'', ''ibuprofen'', ''vitamin k''],
         mi_warnings = ''Many medications and foods can affect blood thinning levels''\<rparr>)]"

record interaction =
  medication1 :: string
  medication2 :: string
  warning :: string

definition warningText :: "interaction \<Rightarrow> string" where
  "warningText x = warningSign @ '' Potential interaction between '' @ medication1 x @
     '' and '' @ medication2 x @ '': '' @ warning x"

text \<open>
  \<open>checkMedicationInteractions\<close>: the outer loop takes the medications in order; for
  one that has an entry in the table, the inner loop goes through the later ones. The
  table is looked up by its own three keys. Both result lists grow together, one
  warning per interaction record.
\<close>

fun interactionsFrom :: "string list \<Rightarrow> interaction list" where
  "interactionsFrom [] = []"
| "interactionsFrom (m # rest) =
     (let med1 = toLowerCase m in
      (case map_of medicationInteractions med1 of
         None \<Rightarrow> []
       | Some info \<Rightarrow>
           map (\<lambda>med2. \<lparr>medication1 = med1, medication2 = med2, warning = mi_warnings info\<rparr>)
             (filter (\<lambda>med2. med2 \<in> set (mi_interactions info)) (map toLowerCase rest))))
     @ interactionsFrom rest"

definition checkMedicationInteractions :: "string list \<Rightarrow> interaction list \<times> string list" where
  "checkMedicationInteractions meds =
     (let found = interactionsFrom meds in (found, map warningText found))"

text \<open>
  For the statement about pairs: the record the checker writes for the positions
  \<open>i\<close> and \<open>j\<close> of a list, and the condition under which the table's entry for the
  earlier medication lists the later one.
\<close>

definition pairRecord :: "string list \<Rightarrow> nat \<Rightarrow> nat \<Rightarrow> medInfo \<Rightarrow> interaction" where
  "pairRecord meds i j info = \<lparr>medication1 = toLowerCase (meds ! i),
     medication2 = toLowerCase (meds ! j), warning = mi_warnings info\<rparr>"

definition forwardPair :: "string list \<Rightarrow> nat \<Rightarrow> nat \<Rightarrow> medInfo \<Rightarrow> bool" where
  "forwardPair meds i j info = (i < j \<and> j < length meds \<and>
     map_of medicationInteractions (toLowerCase (meds ! i)) = Some info \<and>
     toLowerCase (meds ! j) \<in> set (mi_interactions info))"

text \<open>
  The table of the source is an object literal, and an object also answers to the
  names it inherits. Of these only \<open>constructor\<close> and \<open>__proto__\<close> are written without
  capitals, so only they can be the lower-cased name of a medication; for them the
  lookup of the source gives an object without an interaction list, and the source
  throws a TypeError when it goes on to a later medication. The lookup of
  \<open>interactionsFrom\<close> is by the three keys of the table: it is the lookup of the source
  for every other name. The statement about pairs is made for lists of ASCII names
  none of which lower-cases to an inherited name.
\<close>

definition inheritedNames :: "string list" where
  "inheritedNames = [''constructor'', ''__proto__'']"

definition plainNames :: "string list \<Rightarrow> bool" where
  "plainNames meds =
     list_all (\<lambda>m. asciiText m \<and> toLowerCase m \<notin> set inheritedNames) meds"

section \<open>Entities and intents\<close>

text \<open>
  \<open>extractEntities\<close>: the medication and body-part vocabularies, by containment in
  the lower-cased message. The symptom list of the entities is never filled by the
  source. The numbers and time expressions are only handed back to the client and are
  left out here.
\<close>

record entities =
  e_medications :: "string list"
  e_symptoms :: "string list"
  e_bodyParts :: "string list"

definition medicationPatterns :: "string list" where
  "medicationPatterns = [''aspirin'', ''ibuprofen'', ''tylenol'', ''advil'', ''warfarin'',
     ''metformin'', ''insulin'']"

definition bodyParts :: "string list" where
  "bodyParts = [''head'', ''chest'', ''stomach'', ''back'', ''arm'', ''leg'', ''throat'',
     ''ear'', ''eye'', ''nose'']"

definition extractEntities :: "string \<Rightarrow> entities" where
  "extractEntities message =
     (let msg = toLowerCase message
      in \<lparr>e_medications = filter (str_includes msg) medicationPatterns,
          e_symptoms = [],
          e_bodyParts = filter (str_includes msg) bodyParts\<rparr>)"

datatype intent = IEmergency | IGreeting | IGoodbye | IHelp | ISymptom | IAppointment
  | IMedication | IWellness | ISpecialty | ITriage | IGeneral

definition intentName :: "intent \<Rightarrow> string" where
  "intentName i = (case i of IEmergency \<Rightarrow> ''emergency'' | IGreeting \<Rightarrow> ''greeting''
     | IGoodbye \<Rightarrow> ''goodbye'' | IHelp \<Rightarrow> ''help'' | ISymptom \<Rightarrow> ''symptom''
     | IAppointment \<Rightarrow> ''appointment'' | IMedication \<Rightarrow> ''medication''
     | IWellness \<Rightarrow> ''wellness'' | ISpecialty \<Rightarrow> ''specialty'' | ITriage \<Rightarrow> ''triage''
     | IGeneral \<Rightarrow> ''general'')"

text \<open>The patterns of \<open>detectIntent\<close>, in the order of the object literal.\<close>

definition intents :: "(intent \<times> string list) list" where
  "intents =
     [(IEmergency, [''emergency'', ''chest pain'', ''can't breathe'', ''difficulty breathing'',
        ''severe pain'', ''heart attack'', ''stroke'', ''unconscious'', ''bleeding'', ''poison'',
        ''overdose'', ''suicide'', ''self harm'', ''crushing'', ''pressure'', ''sudden'']),
      (IGreeting, [''hi'', ''hello'', ''hey'', ''greetings'', ''good morning'',
        ''good afternoon'', ''good evening'', ''what's up'']),
      (IGoodbye, [''bye'', ''goodbye'', ''see you'', ''farewell'', ''exit'', ''quit'', ''thanks'',
        ''thank you'', ''appreciate'']),
      (IHelp, [''help'', ''what can you do'', ''how can you help'', ''assist'', ''capabilities'',
        ''features'']),
      (ISymptom, [''symptom'', ''pain'', ''ache'', ''hurt'', ''fever'', ''nausea'', ''dizzy'',
        ''headache'', ''stomach'', ''feeling'', ''unwell'', ''sick'', ''illness'', ''disease'',
        ''condition'', ''tired'', ''fatigue'', ''weak'', ''sore'']),
      (IAppointment, [''appointment'', ''schedule'', ''book'', ''visit'', ''see doctor'',
        ''see a doctor'', ''consultation'', ''checkup'', ''exam'', ''available'', ''when'',
        ''book now'', ''check availability'', ''find doctor'']),
      (IMedication, [''medication'', ''medicine'', ''drug'', ''pill'', ''prescription'',
        ''dosage'', ''side effect'', ''interaction'', ''pharmacy'', ''take'', ''taking'']),
      (IWellness, [''wellness'', ''healthy'', ''diet'', ''exercise'', ''fitness'', ''nutrition'',
        ''sleep'', ''stress'', ''mental health'', ''prevention'', ''preventive'', ''weight'',
        ''fitness'']),
      (ISpecialty, [''cardiologist'', ''dermatologist'', ''neurologist'', ''orthopedic'',
        ''pediatrician'', ''psychiatrist'', ''specialist'', ''specialty'']),
      (ITriage, [''urgent'', ''emergency'', ''severe'', ''mild'', ''moderate'', ''how bad'',
        ''how serious'', ''priority''])]"

text \<open>
  \<open>detectIntent\<close>: every pattern is tested on the lower-cased, trimmed message and the
  first one that matches decides; \<open>general\<close> when none does. (The source also takes the
  context and does not use it.)
\<close>

definition detectIntent :: "string \<Rightarrow> intent" where
  "detectIntent message =
     (let msg = trim (toLowerCase message);
          matches = filter (\<lambda>(i, alts). wordAltTest alts msg) intents
      in case matches of [] \<Rightarrow> IGeneral | (i, _) # _ \<Rightarrow> i)"

section \<open>Knowledge base and reply templates\<close>

record symptomKnowledge =
  sk_description :: string
  sk_severity :: string
  sk_recommendations :: "string list"

definition commonSymptoms :: "(string \<times> symptomKnowledge) list" where
  "commonSymptoms =
     [(''headache'', \<lparr>sk_description =
          ''Headaches can be caused by tension, migraines, dehydration, or other factors.'',
        sk_severity = ''moderate'',
        sk_recommendations = [''Stay hydrated'', ''Rest in a quiet, dark room'',
          ''Consider over-the-counter pain relief if appropriate'',
          ''See a doctor if severe or persistent'']\<rparr>),
      (''fever'', \<lparr>sk_description =
          ''Fever is usually a sign of infection. Normal body temperature is around 98.6''
            @ degreeSign @ ''F (37'' @ degreeSign @ ''C).'',
        sk_severity = ''moderate'',
        sk_recommendations = [''Rest and stay hydrated'', ''Monitor temperature regularly'',
          ''Use fever-reducing medication if appropriate'',
          ''Seek medical care if fever is high (>103'' @ degreeSign @ ''F) or persists'']\<rparr>),
      (''cough'', \<lparr>sk_description =
          ''Coughs can be dry or productive, and may indicate respiratory issues.'',
        sk_severity = ''mild'',
        sk_recommendations = [''Stay hydrated'', ''Use a humidifier'',
          ''Avoid irritants like smoke'',
          ''See a doctor if persistent or accompanied by other symptoms'']\<rparr>),
      (''nausea'', \<lparr>sk_description =
          ''Nausea can be caused by various factors including infections, medications, or digestive issues.'',
        sk_severity = ''moderate'',
        sk_recommendations = [''Stay hydrated with small sips'',
          ''Avoid heavy or spicy foods'', ''Rest'', ''Seek care if severe or persistent'']\<rparr>)]"

definition specialties :: "(string \<times> string) list" where
  "specialties =
     [(''cardiology'', ''Heart and cardiovascular system''),
      (''dermatology'', ''Skin conditions''),
      (''endocrinology'', ''Hormones and metabolism''),
      (''gastroenterology'', ''Digestive system''),
      (''neurology'', ''Nervous system and brain''),
      (''orthopedics'', ''Bones, joints, and muscles''),
      (''pediatrics'', ''Children's health''),
      (''psychiatry'', ''Mental health'')]"

definition wellnessTips :: "(string \<times> string list) list" where
  "wellnessTips =
     [(''nutrition'', [''Eat a balanced diet with fruits and vegetables'',
        ''Stay hydrated (8 glasses of water daily)'', ''Limit processed foods'',
        ''Control portion sizes'']),
      (''exercise'', [''Aim for 150 minutes of moderate exercise per week'',
        ''Include strength training 2x per week'', ''Stay active throughout the day'',
        ''Find activities you enjoy'']),
      (''sleep'', [''Aim for 7-9 hours of sleep per night'',
        ''Maintain a regular sleep schedule'', ''Create a relaxing bedtime routine'',
        ''Avoid screens before bed'']),
      (''mental'', [''Practice stress management techniques'',
        ''Stay connected with friends and family'', ''Take breaks when needed'',
        ''Consider meditation or mindfulness''])]"

definition greetingResponses :: "string list" where
  "greetingResponses =
     [''Hello! I'm your healthcare assistant. How can I help you with your health concerns today?'',
      ''Hi there! I'm here to assist with your healthcare needs. What can I help you with?'',
      ''Welcome! I'm your medical assistant. How may I assist you today?'',
      ''Hello! I'm here to help with your health questions. What would you like to know?'']"

definition goodbyeResponses :: "string list" where
  "goodbyeResponses =
     [''Take care of yourself! Remember to consult a healthcare professional for serious concerns.'',
      ''Stay healthy! Don't hesitate to reach out if you have more questions.'',
      ''Goodbye! Wishing you good health. Please consult a doctor for medical emergencies.'',
      ''Take care! For urgent medical issues, please contact emergency services immediately.'']"

definition helpResponses :: "string list" where
  "helpResponses =
     [''I can help you with: general health information, symptom guidance, appointment scheduling, medication reminders, wellness tips, and answering health-related questions. However, I'm not a replacement for professional medical advice. For serious symptoms or emergencies, please consult a healthcare provider immediately.'',
      ''I assist with healthcare information, symptoms, appointments, and general wellness. Please note: I provide general information only and cannot diagnose or treat. Always consult a qualified healthcare professional for medical advice.'',
      ''I'm here to provide general health information and guidance. I can help with symptoms, appointments, medications, and wellness. Important: For medical emergencies, call emergency services. For diagnosis and treatment, consult a healthcare provider.'']"

definition symptomResponses :: "string list" where
  "symptomResponses =
     [''I understand you're experiencing symptoms. While I can provide general information, it's important to consult with a healthcare professional for proper diagnosis. Can you tell me more about when these symptoms started?'',
      ''Thank you for sharing your symptoms. For accurate diagnosis and treatment, I recommend scheduling an appointment with a healthcare provider. Would you like help finding a doctor?'',
      ''I hear your concern about these symptoms. For your safety, please consult a healthcare professional. If symptoms are severe or life-threatening, seek emergency care immediately.'']"

definition appointmentResponses :: "string list" where
  "appointmentResponses =
     [''I can help you schedule an appointment! You can book through our online portal or call our scheduling line at (555) 123-4567. What type of appointment do you need?'',
      ''To schedule an appointment, you can visit our website, use our mobile app, or call us. What specialty or type of care are you looking for?'',
      ''I'd be happy to help you schedule an appointment. You can book online 24/7 or call our office during business hours. What date works best for you?'']"

definition medicationResponses :: "string list" where
  "medicationResponses =
     [''For medication questions, it's best to consult with your pharmacist or prescribing doctor. They can provide specific information about dosages, interactions, and side effects. Is there a specific medication you're asking about?'',
      ''I can provide general medication information, but for specific questions about your prescriptions, please contact your healthcare provider or pharmacist. They have access to your medical history and can give personalized advice.'',
      ''Medication safety is important. For questions about your medications, side effects, or interactions, please speak with your doctor or pharmacist directly.'']"

definition emergencyResponses :: "string list" where
  "emergencyResponses =
     [''If you're experiencing a medical emergency, please call 911 or go to your nearest emergency room immediately. This chatbot cannot provide emergency medical assistance.'',
      ''For life-threatening emergencies, call 911 right away. Do not wait. This includes chest pain, difficulty breathing, severe injuries, or loss of consciousness.'',
      ''URGENT: If this is a medical emergency, please hang up and call 911 immediately. This service is for non-emergency health information only.'']"

definition wellnessResponses :: "string list" where
  "wellnessResponses =
     [''Great question about wellness! Some general tips: stay hydrated, get regular exercise, maintain a balanced diet, get adequate sleep (7-9 hours), and manage stress. Would you like more specific wellness advice?'',
      ''Wellness is important for overall health. Key areas include: nutrition, physical activity, mental health, sleep, and preventive care. What aspect of wellness would you like to focus on?'',
      ''I'm glad you're thinking about wellness! Regular check-ups, healthy eating, exercise, and stress management are all important. Is there a specific wellness goal you're working toward?'']"

definition defaultResponses :: "string list" where
  "defaultResponses =
     [''I understand your concern. For accurate medical information, I recommend consulting with a healthcare professional. Is there a specific health topic I can help you learn more about?'',
      ''Thank you for sharing. I can provide general health information, but for personalized medical advice, please consult your healthcare provider. What would you like to know more about?'',
      ''I'm here to help with general health information. For specific medical concerns, diagnosis, or treatment, please see a qualified healthcare professional. How else can I assist you?'']"

text \<open>
  \<open>Math.floor(Math.random() * xs.length)\<close> is an index into \<open>xs\<close>; the random draw is
  an input of the turn. No path through a turn draws more than once.
\<close>

definition pick :: "nat \<Rightarrow> 'a list \<Rightarrow> 'a" where
  "pick r xs = xs ! (r mod length xs)"

fun joinWith :: "string \<Rightarrow> string list \<Rightarrow> string" where
  "joinWith sep [] = []"
| "joinWith sep [x] = x"
| "joinWith sep (x # y # ys) = x @ sep @ joinWith sep (y # ys)"

definition numbered :: "string list \<Rightarrow> string list" where
  "numbered xs = map (\<lambda>(i, x). showNat (i + 1) @ ''. '' @ x) (enumerate 0 xs)"

fun replaceFirst :: "string \<Rightarrow> string \<Rightarrow> string \<Rightarrow> string" where
  "replaceFirst [] pat rep = (if pat = [] then rep else [])"
| "replaceFirst (c # cs) pat rep =
     (if startsWith (c # cs) pat then rep @ drop (length pat) (c # cs)
      else c # replaceFirst cs pat rep)"

text \<open>\<open>[...new Set(xs)]\<close>: the first occurrence of each element, in order.\<close>

definition uniq :: "'a list \<Rightarrow> 'a list" where
  "uniq xs = rev (remdups (rev xs))"

section \<open>Session state\<close>

text \<open>
  The context of a session, with the fields the turn handler reads. A field that the
  object does not have reads as \<open>undefined\<close>, which every condition of the source takes
  as false: such a flag is \<open>False\<close> here and such a value \<open>None\<close>. Time stamps and the
  annotations of a turn are left out.
\<close>

datatype role = User | Bot

record turn =
  t_role :: role
  t_message :: string

record profile =
  ui_medications :: "string list option"
  ui_symptoms :: "string list option"

record sessionContext =
  conversationHistory :: "turn list"
  currentTopic :: "intent option"
  askedDuration :: bool
  askedSeverity :: bool
  askedOtherSymptoms :: bool
  askedAppointmentType :: bool
  askedAppointmentDate :: bool
  askedAppointmentReason :: bool
  appointmentType :: "string option"
  appointmentDate :: "string option"
  appointmentReason :: "string option"
  sessionId :: "string option"
  userInfo :: profile

text \<open>
  The session store: one row per session with the profile and the metadata object of
  the last \<open>updateSession\<close>, and the messages of each session. Every \<open>updateSession\<close>
  replaces the metadata by the object it is given, so a key that the object does not
  have is absent afterwards (\<open>None\<close>). Writes are taken to succeed; the analytics log
  and the profile table are written and never read by the engine and are left out.
\<close>

record metadata =
  md_currentTopic :: "intent option"
  md_askedDuration :: "bool option"
  md_askedSeverity :: "bool option"
  md_askedOtherSymptoms :: "bool option"
  md_askedAppointmentType :: "bool option"
  md_askedAppointmentDate :: "bool option"
  md_askedAppointmentReason :: "bool option"
  md_appointmentType :: "string option"
  md_appointmentDate :: "string option"
  md_appointmentReason :: "string option"

definition emptyMetadata :: metadata where
  "emptyMetadata = \<lparr>md_currentTopic = None, md_askedDuration = None, md_askedSeverity = None,
     md_askedOtherSymptoms = None, md_askedAppointmentType = None,
     md_askedAppointmentDate = None, md_askedAppointmentReason = None,
     md_appointmentType = None, md_appointmentDate = None, md_appointmentReason = None\<rparr>"

record dbSession =
  row_userInfo :: profile
  row_metadata :: metadata

record database =
  db_sessions :: "string \<rightharpoonup> dbSession"
  db_messages :: "string \<Rightarrow> turn list"

definition updateSession :: "string \<Rightarrow> profile \<Rightarrow> metadata \<Rightarrow> database \<Rightarrow> database" where
  "updateSession sid info md d =
     (case db_sessions d sid of
        None \<Rightarrow> d
      | Some row \<Rightarrow> d\<lparr>db_sessions := (db_sessions d)(sid \<mapsto>
          \<lparr>row_userInfo = info, row_metadata = md\<rparr>)\<rparr>)"

definition saveMessage :: "string \<Rightarrow> role \<Rightarrow> string \<Rightarrow> database \<Rightarrow> database" where
  "saveMessage sid r text d =
     d\<lparr>db_messages := (db_messages d)(sid := db_messages d sid @
        [\<lparr>t_role = r, t_message = text\<rparr>])\<rparr>"

text \<open>
  The process: the in-memory session cache, the store, the counters, the alerts sent
  over the notification channel (session id and message) and the number of calls of
  the generative hook.
\<close>

record world =
  sessions :: "string \<rightharpoonup> sessionContext"
  db :: database
  stats :: analytics
  alerts :: "(string \<times> string) list"
  aiCalls :: nat

text \<open>
  What a turn gets from outside: the random draw, whether the generative service is
  configured, and what it answers when called (\<open>None\<close> for \<open>null\<close>, an error or a
  timeout, all of which the source turns into \<open>null\<close>).
\<close>

record env =
  rnd :: nat
  aiAvailable :: bool
  aiReply :: "string option"

definition flag :: "bool option \<Rightarrow> bool" where
  "flag v = (case v of None \<Rightarrow> False | Some b \<Rightarrow> b)"

definition orNil :: "'a list option \<Rightarrow> 'a list" where
  "orNil v = (case v of None \<Rightarrow> [] | Some xs \<Rightarrow> xs)"

text \<open>
  The context built from a stored session, as \<open>syncSessionsFromDB\<close> and the cold read
  of \<open>generateResponse\<close> both build it: history, topic, the three symptom flags and the
  profile. The object literal has no appointment field and no session id.
\<close>

definition hydrate :: "dbSession \<Rightarrow> turn list \<Rightarrow> sessionContext" where
  "hydrate row messages =
     \<lparr>conversationHistory = messages,
      currentTopic = md_currentTopic (row_metadata row),
      askedDuration = flag (md_askedDuration (row_metadata row)),
      askedSeverity = flag (md_askedSeverity (row_metadata row)),
      askedOtherSymptoms = flag (md_askedOtherSymptoms (row_metadata row)),
      askedAppointmentType = False,
      askedAppointmentDate = False,
      askedAppointmentReason = False,
      appointmentType = None,
      appointmentDate = None,
      appointmentReason = None,
      sessionId = None,
      userInfo = row_userInfo row\<rparr>"

definition syncSessionsFromDB :: "world \<Rightarrow> world" where
  "syncSessionsFromDB w =
     w\<lparr>sessions := (\<lambda>sid. case db_sessions (db w) sid of
          None \<Rightarrow> sessions w sid
        | Some row \<Rightarrow> Some (hydrate row (db_messages (db w) sid)))\<rparr>"

definition freshContext :: "string \<Rightarrow> sessionContext" where
  "freshContext sid =
     \<lparr>conversationHistory = [], currentTopic = None,
      askedDuration = False, askedSeverity = False, askedOtherSymptoms = False,
      askedAppointmentType = False, askedAppointmentDate = False,
      askedAppointmentReason = False,
      appointmentType = None, appointmentDate = None, appointmentReason = None,
      sessionId = Some sid,
      userInfo = \<lparr>ui_medications = None, ui_symptoms = None\<rparr>\<rparr>"

definition pushTurn :: "role \<Rightarrow> string \<Rightarrow> sessionContext \<Rightarrow> sessionContext" where
  "pushTurn r text ctx =
     ctx\<lparr>conversationHistory := conversationHistory ctx @ [\<lparr>t_role = r, t_message = text\<rparr>]\<rparr>"

section \<open>The appointment flow\<close>

record flowReply =
  fr_response :: string
  fr_quickActions :: "string list"

definition bookingTriggers :: "string list" where
  "bookingTriggers = [''book now'', ''schedule appointment'', ''book'', ''schedule'',
     ''check availability'']"

text \<open>
  What every answering branch of the flow does after it has built its reply:
  \<open>database.saveMessage\<close>, \<open>database.updateSession\<close> with the metadata object of the
  branch, and \<open>sessions.set\<close>.
\<close>

definition flowPersist ::
  "string \<Rightarrow> string \<Rightarrow> metadata \<Rightarrow> sessionContext \<Rightarrow> world \<Rightarrow> world" where
  "flowPersist sid response md ctx w =
     w\<lparr>sessions := (sessions w)(sid \<mapsto> ctx),
       db := updateSession sid (userInfo ctx) md (saveMessage sid Bot response (db w))\<rparr>"

text \<open>
  The start of the flow. The source has this block twice, as the first branch of
  \<open>handleAppointmentFlow\<close> (a trigger phrase) and as its last one (any message when
  the type has not been asked).
\<close>

definition startFlow ::
  "nat \<Rightarrow> sessionContext \<Rightarrow> string \<Rightarrow> world \<Rightarrow> flowReply option \<times> sessionContext \<times> world" where
  "startFlow r ctx sid w =
     (let ctx = ctx\<lparr>askedAppointmentType := True\<rparr>;
          response = pick r appointmentResponses @
            ''\<newline>\<newline>What type of appointment are you looking for?'';
          ctx = pushTurn Bot response ctx;
          w = flowPersist sid response
                (emptyMetadata\<lparr>md_currentTopic := Some IAppointment,
                   md_askedAppointmentType := Some (askedAppointmentType ctx)\<rparr>) ctx w
      in (Some \<lparr>fr_response = response,
                fr_quickActions = [''General Checkup'', ''Specialist Visit'', ''Follow-up'',
                  ''Emergency'']\<rparr>, ctx, w))"

text \<open>
  \<open>if (!sessionId && context.sessionId) sessionId = context.sessionId\<close>: an empty
  session id is replaced by the one of the context. The chat endpoint never passes an
  empty id.
\<close>

definition flowSid :: "string \<Rightarrow> sessionContext \<Rightarrow> string" where
  "flowSid sid0 ctx =
     (if sid0 = [] \<and> truthy (sessionId ctx) then strOf (sessionId ctx) else sid0)"

text \<open>
  \<open>handleAppointmentFlow\<close>. The context object is changed in place by the source; here
  the changed context is returned, with the reply (\<open>None\<close> for \<open>null\<close>) and the process
  state.
\<close>

definition handleAppointmentFlow ::
  "nat \<Rightarrow> string \<Rightarrow> sessionContext \<Rightarrow> string \<Rightarrow> world \<Rightarrow>
     flowReply option \<times> sessionContext \<times> world" where
  "handleAppointmentFlow r message ctx sid0 w =
     (let msg = toLowerCase message;
          sid = flowSid sid0 ctx
      in
      if msg \<in> set bookingTriggers \<and> \<not> askedAppointmentType ctx then
        startFlow r ctx sid w
      else if askedAppointmentType ctx \<and> \<not> askedAppointmentDate ctx then
        (if msg \<notin> set bookingTriggers then
           (let ctx = ctx\<lparr>appointmentType := Some message, askedAppointmentDate := True\<rparr>;
                response = ''Thank you! You're looking for a '' @ message @ '' appointment. '' @
                  ''What date would work best for you? You can say things like \"tomorrow\", \"next week\", or a specific date.'';
                ctx = pushTurn Bot response ctx;
                w = flowPersist sid response
                      (emptyMetadata\<lparr>md_currentTopic := Some IAppointment,
                         md_askedAppointmentType := Some (askedAppointmentType ctx),
                         md_askedAppointmentDate := Some (askedAppointmentDate ctx),
                         md_askedAppointmentReason := Some (askedAppointmentReason ctx),
                         md_appointmentType := appointmentType ctx\<rparr>) ctx w
            in (Some \<lparr>fr_response = response,
                      fr_quickActions = [''Tomorrow'', ''Next Week'', ''This Week'', ''Cancel'']\<rparr>,
                ctx, w))
         else (None, ctx, w))
      else if askedAppointmentDate ctx \<and> \<not> askedAppointmentReason ctx then
        (let ctx = ctx\<lparr>appointmentDate := Some message, askedAppointmentReason := True\<rparr>;
             response = ''Great! '' @ message @ '' works. '' @
               ''What is the reason for your visit? (e.g., routine checkup, specific symptoms, follow-up)'';
             ctx = pushTurn Bot response ctx;
             w = flowPersist sid response
                   (emptyMetadata\<lparr>md_currentTopic := Some IAppointment,
                      md_askedAppointmentType := Some (askedAppointmentType ctx),
                      md_askedAppointmentDate := Some (askedAppointmentDate ctx),
                      md_askedAppointmentReason := Some (askedAppointmentReason ctx),
                      md_appointmentType := appointmentType ctx,
                      md_appointmentDate := appointmentDate ctx\<rparr>) ctx w
         in (Some \<lparr>fr_response = response,
                   fr_quickActions = [''Routine Checkup'', ''Follow-up'', ''Symptoms'', ''Other'']\<rparr>,
             ctx, w))
      else if askedAppointmentReason ctx then
        (let ctx = ctx\<lparr>appointmentReason := Some message\<rparr>;
             response = ''Perfect! I have your appointment details:\<newline>\<newline>'' @
               ''**Appointment Type:** '' @
                 (if truthy (appointmentType ctx) then strOf (appointmentType ctx)
                  else ''General'') @ ''\<newline>'' @
               ''**Preferred Date:** '' @
                 (if truthy (appointmentDate ctx) then strOf (appointmentDate ctx)
                  else ''Not specified'') @ ''\<newline>'' @
               ''**Reason:** '' @ message @ ''\<newline>\<newline>'' @
               ''To complete your booking, you can:\<newline>'' @
               ''1. Call our scheduling line at (555) 123-4567\<newline>'' @
               ''2. Visit our online portal at www.healthcareportal.com\<newline>'' @
               ''3. Use our mobile app\<newline>\<newline>'' @
               ''Our team will confirm your appointment within 24 hours.'';
             ctx = pushTurn Bot response ctx;
             ctx = ctx\<lparr>askedAppointmentType := False, askedAppointmentDate := False,
                     askedAppointmentReason := False, appointmentType := None,
                     appointmentDate := None, appointmentReason := None\<rparr>;
             w = flowPersist sid response
                   (emptyMetadata\<lparr>md_currentTopic := Some IAppointment,
                      md_askedAppointmentType := Some False,
                      md_askedAppointmentDate := Some False,
                      md_askedAppointmentReason := Some False\<rparr>) ctx w
         in (Some \<lparr>fr_response = response,
                   fr_quickActions = [''New Appointment'', ''View Details'', ''Contact Support'']\<rparr>,
             ctx, w))
      else if \<not> askedAppointmentType ctx then
        startFlow r ctx sid w
      else (None, ctx, w))"

section \<open>Symptom assessment\<close>

definition symptomDurationUnits :: "string list" where
  "symptomDurationUnits = [''day'', ''days'', ''hour'', ''hours'', ''week'', ''weeks'',
     ''month'', ''months'']"

definition severityWords :: "string list" where
  "severityWords = [''severe'', ''mild'', ''moderate'', ''intense'', ''extreme'', ''slight'']"

definition extractSymptomInfo :: "string \<Rightarrow> symptomInfo" where
  "extractSymptomInfo message =
     (let msg = toLowerCase message
      in \<lparr>si_symptoms = filter (str_includes msg) (map fst commonSymptoms),
          si_duration = (case durationSearch True symptomDurationUnits None message of
                           None \<Rightarrow> None
                         | Some (numStr, unitStr) \<Rightarrow> Some (numStr @ '' '' @ unitStr)),
          si_severity = wordAltMatch severityWords msg\<rparr>)"

definition urgencyName :: "urgency \<Rightarrow> string" where
  "urgencyName u = (case u of CRITICAL \<Rightarrow> ''CRITICAL'' | HIGH \<Rightarrow> ''HIGH''
     | MEDIUM \<Rightarrow> ''MEDIUM'' | LOW \<Rightarrow> ''LOW'')"

record assessment =
  a_response :: string
  a_quickActions :: "string list"
  a_triage :: triage
  a_entities :: entities
  a_sentiment :: sentiment

text \<open>
  \<open>generateSymptomAssessment\<close>: triage (which may count an emergency), then, when a
  known symptom is named, the reply with the follow-up questions that have not been
  asked yet; asking one sets its flag in the context.
\<close>

definition generateSymptomAssessment ::
  "string \<Rightarrow> sessionContext \<Rightarrow> analytics \<Rightarrow> assessment option \<times> sessionContext \<times> analytics" where
  "generateSymptomAssessment message ctx an =
     (let info = extractSymptomInfo message;
          ents = extractEntities message;
          sent = analyzeSentiment message;
          (tri, an) = performTriage message info an
      in case si_symptoms info of
           [] \<Rightarrow> (None, ctx, an)
         | symptom # _ \<Rightarrow>
            (let knowledge = map_of commonSymptoms symptom;
                 pressing = (urgency tri = CRITICAL \<or> urgency tri = HIGH);
                 response = ''I understand you're experiencing '' @ symptom @ ''. '';
                 response = (if pressing
                   then response @ ''\<newline>\<newline>'' @ sirenSign @ '' **URGENCY: '' @
                     urgencyName (urgency tri) @ ''**\<newline>'' @ action tri @ ''\<newline>\<newline>''
                   else response);
                 response = (case knowledge of
                     None \<Rightarrow> response
                   | Some k \<Rightarrow> response @ sk_description k @ '' '');
                 response = (if sent = Negative
                   then response @ ''I understand this is concerning for you. ''
                   else response);
                 askD = (\<not> truthy (si_duration info) \<and> \<not> askedDuration ctx);
                 followUps = (if askD then [''How long have you been experiencing this?'']
                   else []);
                 response = (if \<not> askD \<and> truthy (si_duration info)
                   then response @ ''You mentioned it's been '' @ strOf (si_duration info) @ ''. ''
                   else response);
                 ctx = (if askD then ctx\<lparr>askedDuration := True\<rparr> else ctx);
                 askS = (\<not> truthy (si_severity info) \<and> \<not> askedSeverity ctx);
                 followUps = (if askS
                   then followUps @ [''On a scale of 1-10, how would you rate the severity?'']
                   else followUps);
                 response = (if \<not> askS \<and> truthy (si_severity info)
                   then response @ ''You mentioned it's '' @ strOf (si_severity info) @ ''. ''
                   else response);
                 ctx = (if askS then ctx\<lparr>askedSeverity := True\<rparr> else ctx);
                 askO = (\<not> askedOtherSymptoms ctx);
                 followUps = (if askO
                   then followUps @ [''Are you experiencing any other symptoms?'']
                   else followUps);
                 ctx = (if askO then ctx\<lparr>askedOtherSymptoms := True\<rparr> else ctx);
                 response = (if followUps \<noteq> [] then response @ joinWith '' '' followUps
                   else response);
                 response = (case knowledge of
                     None \<Rightarrow> response
                   | Some k \<Rightarrow> response @ ''\<newline>\<newline>**General recommendations:**\<newline>'' @
                       joinWith ''\<newline>'' (numbered (sk_recommendations k)));
                 response = response @ ''\<newline>\<newline>**Recommended Action:** '' @ action tri;
                 response = response @ ''\<newline>\<newline>'' @ warningSign @
                   '' For proper diagnosis and treatment, please consult with a healthcare professional.'';
                 quickActions = (if pressing then [''Call 911''] else []) @
                   [''Schedule Appointment'', ''Find Doctor'', ''More Info'']
             in (Some \<lparr>a_response = response, a_quickActions = quickActions, a_triage = tri,
                       a_entities = ents, a_sentiment = sent\<rparr>, ctx, an)))"

section \<open>One turn of the conversation\<close>

text \<open>
  The reply of a turn. The return statements of \<open>generateResponse\<close> build objects with
  different fields; a field that an object does not have is \<open>None\<close>. The emergency
  reply carries a triage object with urgency and priority only.
\<close>

datatype triageReport = Full triage | Brief urgency nat

definition reportUrgency :: "triageReport \<Rightarrow> urgency" where
  "reportUrgency t = (case t of Full x \<Rightarrow> urgency x | Brief u _ \<Rightarrow> u)"

record result =
  r_response :: string
  r_quickActions :: "string list"
  r_triage :: "triageReport option"
  r_entities :: "entities option"
  r_sentiment :: "sentiment option"
  r_interactions :: "interaction list option"
  r_aiEnhanced :: "bool option"

definition plainResult :: "string \<Rightarrow> string list \<Rightarrow> result" where
  "plainResult response quickActions =
     \<lparr>r_response = response, r_quickActions = quickActions, r_triage = None,
      r_entities = None, r_sentiment = None, r_interactions = None, r_aiEnhanced = None\<rparr>"

definition flowResult :: "flowReply \<Rightarrow> result" where
  "flowResult fr = plainResult (fr_response fr) (fr_quickActions fr)"

text \<open>\<open>appointmentFlow && appointmentFlow.response\<close>: a reply with a non-empty text.\<close>

definition answered :: "flowReply option \<Rightarrow> flowReply option" where
  "answered fr = (case fr of None \<Rightarrow> None
     | Some f \<Rightarrow> if fr_response f \<noteq> [] then Some f else None)"

definition inFlow :: "sessionContext \<Rightarrow> bool" where
  "inFlow ctx = (askedAppointmentType ctx \<or> askedAppointmentDate ctx \<or>
     askedAppointmentReason ctx)"

text \<open>
  The context of the turn: from the cache, else from the store (and then put into the
  cache), else a new one.
\<close>

definition loadContext :: "string \<Rightarrow> world \<Rightarrow> sessionContext \<times> world" where
  "loadContext sid w =
     (case sessions w sid of
        Some ctx \<Rightarrow> (ctx, w)
      | None \<Rightarrow>
          (case db_sessions (db w) sid of
             Some row \<Rightarrow>
               (let ctx = hydrate row (db_messages (db w) sid)
                in (ctx, w\<lparr>sessions := (sessions w)(sid \<mapsto> ctx)\<rparr>))
           | None \<Rightarrow> (freshContext sid, w)))"

text \<open>
  The first part of \<open>generateResponse\<close>, up to the intent: entities and sentiment, the
  medications of the profile and their interaction warnings, the user's turn in the
  history and in the store, the topic.
\<close>

record turnFacts =
  tf_entities :: entities
  tf_sentiment :: sentiment
  tf_warnings :: "string list"
  tf_intent :: intent

definition beginTurn ::
  "string \<Rightarrow> string \<Rightarrow> sessionContext \<Rightarrow> world \<Rightarrow> turnFacts \<times> sessionContext \<times> world" where
  "beginTurn userMessage sid ctx w =
     (let ctx = (if truthy (sessionId ctx) then ctx else ctx\<lparr>sessionId := Some sid\<rparr>);
          ents = extractEntities userMessage;
          sent = analyzeSentiment userMessage;
          ctx = (if e_medications ents \<noteq> []
            then ctx\<lparr>userInfo := (userInfo ctx)\<lparr>ui_medications :=
              Some (uniq (orNil (ui_medications (userInfo ctx)) @ e_medications ents))\<rparr>\<rparr>
            else ctx);
          ctx = (if e_symptoms ents \<noteq> []
            then ctx\<lparr>userInfo := (userInfo ctx)\<lparr>ui_symptoms :=
              Some (uniq (orNil (ui_symptoms (userInfo ctx)) @ e_symptoms ents))\<rparr>\<rparr>
            else ctx);
          meds = orNil (ui_medications (userInfo ctx));
          warnings = (if length meds > 1 then snd (checkMedicationInteractions meds) else []);
          ctx = pushTurn User userMessage ctx;
          intent = detectIntent userMessage;
          w = w\<lparr>db := saveMessage sid User userMessage (db w)\<rparr>;
          ctx = ctx\<lparr>currentTopic := Some intent\<rparr>
      in (\<lparr>tf_entities = ents, tf_sentiment = sent, tf_warnings = warnings,
           tf_intent = intent\<rparr>, ctx, w))"

text \<open>The emergency branch: counter, template, store, cache, alert.\<close>

definition emergencyReply ::
  "env \<Rightarrow> string \<Rightarrow> string \<Rightarrow> sessionContext \<Rightarrow> world \<Rightarrow> result \<times> world" where
  "emergencyReply e userMessage sid ctx w =
     (let w = w\<lparr>stats := (stats w)\<lparr>emergencyCount := emergencyCount (stats w) + 1\<rparr>\<rparr>;
          response = pick (rnd e) emergencyResponses;
          ctx = pushTurn Bot response ctx;
          w = w\<lparr>db := updateSession sid (userInfo ctx)
                 (emptyMetadata\<lparr>md_currentTopic := Some IEmergency\<rparr>)
                 (saveMessage sid Bot response (db w))\<rparr>;
          w = w\<lparr>sessions := (sessions w)(sid \<mapsto> ctx)\<rparr>;
          w = w\<lparr>alerts := alerts w @ [(sid, userMessage)]\<rparr>
      in ((plainResult response [''Call 911'', ''Find ER''])
            \<lparr>r_triage := Some (Brief CRITICAL 1)\<rparr>, w))"

text \<open>The call of the generative hook, made only when the service is configured.\<close>

definition askAI :: "env \<Rightarrow> world \<Rightarrow> string option \<times> world" where
  "askAI e w =
     (if aiAvailable e then (aiReply e, w\<lparr>aiCalls := aiCalls w + 1\<rparr>) else (None, w))"

definition symptomMetadata :: "sessionContext \<Rightarrow> metadata" where
  "symptomMetadata ctx =
     emptyMetadata\<lparr>md_currentTopic := Some ISymptom,
       md_askedDuration := Some (askedDuration ctx),
       md_askedSeverity := Some (askedSeverity ctx),
       md_askedOtherSymptoms := Some (askedOtherSymptoms ctx)\<rparr>"

definition diagnosisNote :: string where
  "diagnosisNote = ''\<newline>\<newline>'' @ warningSign @
     '' For proper diagnosis and treatment, please consult with a healthcare professional.''"

text \<open>The symptom branch; every path of it returns.\<close>

definition symptomReply ::
  "env \<Rightarrow> string \<Rightarrow> string \<Rightarrow> turnFacts \<Rightarrow> string option \<Rightarrow> sessionContext \<Rightarrow> world \<Rightarrow>
     result \<times> world" where
  "symptomReply e userMessage sid facts aiResponse ctx w =
     (let (assessed, ctx, an) = generateSymptomAssessment userMessage ctx (stats w);
          w = w\<lparr>stats := an\<rparr>
      in
      if truthy aiResponse then
        (let enhanced = strOf aiResponse;
             enhanced = (case assessed of
                 None \<Rightarrow> enhanced
               | Some a \<Rightarrow>
                   if urgency (a_triage a) = CRITICAL \<or> urgency (a_triage a) = HIGH
                   then sirenSign @ '' **URGENCY: '' @ urgencyName (urgency (a_triage a)) @
                     ''**\<newline>\<newline>'' @ enhanced @ ''\<newline>\<newline>**Recommended Action:** '' @
                     action (a_triage a)
                   else enhanced);
             enhanced = (if tf_warnings facts \<noteq> []
               then enhanced @ ''\<newline>\<newline>'' @ joinWith ''\<newline>'' (tf_warnings facts)
               else enhanced);
             enhanced = enhanced @ diagnosisNote;
             ctx = pushTurn Bot enhanced ctx;
             w = w\<lparr>db := updateSession sid (userInfo ctx) (symptomMetadata ctx)
                    (saveMessage sid Bot enhanced (db w))\<rparr>;
             w = w\<lparr>sessions := (sessions w)(sid \<mapsto> ctx)\<rparr>
         in ((plainResult enhanced [''Schedule Appointment'', ''Find Doctor'', ''More Info''])
               \<lparr>r_triage := map_option (\<lambda>a. Full (a_triage a)) assessed,
                 r_entities := Some (tf_entities facts),
                 r_sentiment := Some (tf_sentiment facts)\<rparr>, w))
      else
        (case assessed of
           Some a \<Rightarrow>
             (let ctx = pushTurn Bot (a_response a) ctx;
                  w = w\<lparr>db := updateSession sid (userInfo ctx) (symptomMetadata ctx)
                         (saveMessage sid Bot (a_response a) (db w))\<rparr>;
                  w = w\<lparr>sessions := (sessions w)(sid \<mapsto> ctx)\<rparr>;
                  response = (if tf_warnings facts \<noteq> []
                    then a_response a @ ''\<newline>\<newline>'' @ joinWith ''\<newline>'' (tf_warnings facts)
                    else a_response a);
                  quickActions = (if a_quickActions a = []
                    then [''Schedule Appointment'', ''Find Doctor'', ''More Info'']
                    else a_quickActions a)
              in ((plainResult response quickActions)
                    \<lparr>r_triage := Some (Full (a_triage a)),
                      r_entities := Some (a_entities a),
                      r_sentiment := Some (a_sentiment a)\<rparr>, w))
         | None \<Rightarrow>
             (let response = pick (rnd e) symptomResponses;
                  ctx = pushTurn Bot response ctx;
                  w = w\<lparr>db := saveMessage sid Bot response (db w)\<rparr>;
                  w = w\<lparr>sessions := (sessions w)(sid \<mapsto> ctx)\<rparr>
              in ((plainResult response [''Schedule Appointment'', ''Find Doctor'', ''Tell Me More''])
                    \<lparr>r_entities := Some (tf_entities facts),
                      r_sentiment := Some (tf_sentiment facts)\<rparr>, w))))"

text \<open>
  The three branches that return only when they find something: interactions among
  the medications of the message, a specialty named in the message, a wellness
  category named in the message. \<open>None\<close> is falling through to the next statement.
\<close>

definition medicationReply ::
  "env \<Rightarrow> string \<Rightarrow> turnFacts \<Rightarrow> sessionContext \<Rightarrow> world \<Rightarrow> (result \<times> world) option" where
  "medicationReply e sid facts ctx w =
     (if tf_intent facts = IMedication \<and> e_medications (tf_entities facts) \<noteq> [] then
        (let (found, warnings) = checkMedicationInteractions (e_medications (tf_entities facts))
         in if warnings \<noteq> [] then
              (let response = pick (rnd e) medicationResponses @ ''\<newline>\<newline>'' @
                     joinWith ''\<newline>'' warnings @ ''\<newline>\<newline>'' @ warningSign @
                     '' Always consult your pharmacist or doctor about medication interactions.'';
                   ctx = pushTurn Bot response ctx;
                   w = w\<lparr>sessions := (sessions w)(sid \<mapsto> ctx)\<rparr>
               in Some ((plainResult response [''Find Pharmacy'', ''Contact Doctor''])
                          \<lparr>r_interactions := Some found\<rparr>, w))
            else None)
      else None)"

definition specialtyReply ::
  "string \<Rightarrow> string \<Rightarrow> turnFacts \<Rightarrow> sessionContext \<Rightarrow> world \<Rightarrow> (result \<times> world) option" where
  "specialtyReply message sid facts ctx w =
     (if tf_intent facts = ISpecialty then
        (case filter (\<lambda>(specialty, description).
                 str_includes message (replaceFirst specialty ''ology'' []) \<or>
                 str_includes message specialty) specialties of
           [] \<Rightarrow> None
         | (specialty, description) # _ \<Rightarrow>
             (let response = ''A '' @ specialty @ '' specialist focuses on '' @ description @
                    ''. Would you like help finding a '' @ specialty @
                    '' specialist or scheduling an appointment?'';
                  ctx = pushTurn Bot response ctx;
                  w = w\<lparr>sessions := (sessions w)(sid \<mapsto> ctx)\<rparr>
              in Some (plainResult response [''Find Specialist'', ''Schedule Appointment''], w)))
      else None)"

definition wellnessReply ::
  "string \<Rightarrow> string \<Rightarrow> turnFacts \<Rightarrow> sessionContext \<Rightarrow> world \<Rightarrow> (result \<times> world) option" where
  "wellnessReply message sid facts ctx w =
     (if tf_intent facts = IWellness then
        (case filter (\<lambda>(category, tips). str_includes message category) wellnessTips of
           [] \<Rightarrow> None
         | (category, tips) # _ \<Rightarrow>
             (let response = ''Here are some '' @ category @ '' tips:\<newline>\<newline>'' @
                    joinWith ''\<newline>'' (numbered tips) @
                    ''\<newline>\<newline>Would you like more information about '' @ category @ ''?'';
                  ctx = pushTurn Bot response ctx;
                  w = w\<lparr>sessions := (sessions w)(sid \<mapsto> ctx)\<rparr>
              in Some (plainResult response [''More Tips'', ''Schedule Checkup''], w)))
      else None)"

text \<open>
  The end of \<open>generateResponse\<close>: the reply goes into the history and the store, the
  metadata is written with every flag and value of the context, and the context goes
  into the cache.
\<close>

definition finishTurn ::
  "string \<Rightarrow> intent \<Rightarrow> string \<Rightarrow> string list \<Rightarrow> bool \<Rightarrow> sessionContext \<Rightarrow> world \<Rightarrow>
     result \<times> world" where
  "finishTurn sid intent response quickActions wasAIEnhanced ctx w =
     (let ctx = pushTurn Bot response ctx;
          w = w\<lparr>db := updateSession sid (userInfo ctx)
                 \<lparr>md_currentTopic = Some intent,
                  md_askedDuration = Some (askedDuration ctx),
                  md_askedSeverity = Some (askedSeverity ctx),
                  md_askedOtherSymptoms = Some (askedOtherSymptoms ctx),
                  md_askedAppointmentType = Some (askedAppointmentType ctx),
                  md_askedAppointmentDate = Some (askedAppointmentDate ctx),
                  md_askedAppointmentReason = Some (askedAppointmentReason ctx),
                  md_appointmentType = appointmentType ctx,
                  md_appointmentDate = appointmentDate ctx,
                  md_appointmentReason = appointmentReason ctx\<rparr>
                 (saveMessage sid Bot response (db w))\<rparr>;
          w = w\<lparr>sessions := (sessions w)(sid \<mapsto> ctx)\<rparr>
      in ((plainResult response quickActions)\<lparr>r_aiEnhanced := Some wasAIEnhanced\<rparr>, w))"

definition aiQuickActions :: "intent \<Rightarrow> string list" where
  "aiQuickActions intent = (case intent of
       IGreeting \<Rightarrow> [''Check Symptoms'', ''Schedule Appointment'', ''Wellness Tips'']
     | IHelp \<Rightarrow> [''Symptoms'', ''Appointments'', ''Medications'', ''Wellness'']
     | IAppointment \<Rightarrow> [''Book Now'', ''Find Doctor'', ''Check Availability'']
     | IMedication \<Rightarrow> [''Find Pharmacy'', ''Contact Doctor'']
     | IWellness \<Rightarrow> [''Nutrition Tips'', ''Exercise Guide'', ''Sleep Advice'']
     | _ \<Rightarrow> [''Get Help'', ''Find Doctor''])"

text \<open>
  The standard replies: the generated text when there is one, else the template of the
  intent. For the appointment intent the template branch asks the flow first.
\<close>

definition standardReply ::
  "env \<Rightarrow> string \<Rightarrow> string \<Rightarrow> turnFacts \<Rightarrow> string option \<Rightarrow> sessionContext \<Rightarrow> world \<Rightarrow>
     result \<times> world" where
  "standardReply e userMessage sid facts aiResponse ctx w =
     (let intent = tf_intent facts in
      if truthy aiResponse then
        finishTurn sid intent (strOf aiResponse) (aiQuickActions intent) True ctx w
      else
        (case intent of
           IGreeting \<Rightarrow> finishTurn sid intent (pick (rnd e) greetingResponses)
             [''Check Symptoms'', ''Schedule Appointment'', ''Wellness Tips''] False ctx w
         | IGoodbye \<Rightarrow> finishTurn sid intent (pick (rnd e) goodbyeResponses) [] False ctx w
         | IHelp \<Rightarrow> finishTurn sid intent (pick (rnd e) helpResponses)
             [''Symptoms'', ''Appointments'', ''Medications'', ''Wellness''] False ctx w
         | IAppointment \<Rightarrow>
             (case handleAppointmentFlow (rnd e) userMessage ctx sid w of
                (Some fr, ctx, w) \<Rightarrow>
                  (let ctx = pushTurn Bot (fr_response fr) ctx;
                       w = w\<lparr>sessions := (sessions w)(sid \<mapsto> ctx)\<rparr>
                   in (plainResult (fr_response fr) (fr_quickActions fr), w))
              | (None, ctx, w) \<Rightarrow>
                  finishTurn sid intent (pick (rnd e) appointmentResponses)
                    [''Book Now'', ''Find Doctor'', ''Check Availability''] False ctx w)
         | IMedication \<Rightarrow> finishTurn sid intent (pick (rnd e) medicationResponses)
             [''Find Pharmacy'', ''Contact Doctor''] False ctx w
         | IWellness \<Rightarrow> finishTurn sid intent (pick (rnd e) wellnessResponses)
             [''Nutrition Tips'', ''Exercise Guide'', ''Sleep Advice''] False ctx w
         | _ \<Rightarrow>
             finishTurn sid intent
               (if length (conversationHistory ctx) > 2
                then ''I understand. Based on our conversation about '' @
                  (case currentTopic ctx of None \<Rightarrow> ''null'' | Some t \<Rightarrow> intentName t) @
                  '', I'd recommend consulting with a healthcare professional for personalized advice. Is there anything specific you'd like to know more about?''
                else pick (rnd e) defaultResponses)
               [''Get Help'', ''Find Doctor''] False ctx w))"

text \<open>
  \<open>generateResponse\<close> from the emergency check on: the emergency branch, then the call
  of the generative hook and the branches by intent.
\<close>

definition respond ::
  "env \<Rightarrow> string \<Rightarrow> string \<Rightarrow> turnFacts \<Rightarrow> sessionContext \<Rightarrow> world \<Rightarrow> result \<times> world" where
  "respond e userMessage sid facts ctx w =
     (if tf_intent facts = IEmergency then emergencyReply e userMessage sid ctx w
      else
        (let (aiResponse, w) = askAI e w;
             message = trim (toLowerCase userMessage)
         in if tf_intent facts = ISymptom then
              symptomReply e userMessage sid facts aiResponse ctx w
            else
              (case medicationReply e sid facts ctx w of
                 Some rw \<Rightarrow> rw
               | None \<Rightarrow>
                   (case specialtyReply message sid facts ctx w of
                      Some rw \<Rightarrow> rw
                    | None \<Rightarrow>
                        (case wellnessReply message sid facts ctx w of
                           Some rw \<Rightarrow> rw
                         | None \<Rightarrow>
                             standardReply e userMessage sid facts aiResponse ctx w)))))"

text \<open>
  \<open>generateResponse\<close>: the context is loaded and the turn begun; a session that is in
  the appointment flow asks the flow first; then a trigger phrase with the appointment
  intent asks the flow; then the rest. A flow that gives no reply lets the turn go on.
\<close>

definition generateResponse :: "env \<Rightarrow> string \<Rightarrow> string \<Rightarrow> world \<Rightarrow> result \<times> world" where
  "generateResponse e userMessage sid w =
     (let message = trim (toLowerCase userMessage);
          (ctx, w) = loadContext sid w;
          (facts, ctx, w) = beginTurn userMessage sid ctx w;
          (fr, ctx, w) = (if inFlow ctx
            then handleAppointmentFlow (rnd e) userMessage ctx sid w
            else (None, ctx, w))
      in case answered fr of
           Some f \<Rightarrow> (flowResult f, w)
         | None \<Rightarrow>
             (let (fr, ctx, w) = (if message \<in> set bookingTriggers \<and> tf_intent facts = IAppointment
                    then handleAppointmentFlow (rnd e) userMessage ctx sid w
                    else (None, ctx, w))
              in case answered fr of
                   Some f \<Rightarrow> (flowResult f, w)
                 | None \<Rightarrow> respond e userMessage sid facts ctx w))"

text \<open>The appointment part of a context: the three flags and the three values.\<close>

definition appointmentState ::
  "sessionContext \<Rightarrow> bool \<times> bool \<times> bool \<times> string option \<times> string option \<times> string option" where
  "appointmentState ctx =
     (askedAppointmentType ctx, askedAppointmentDate ctx, askedAppointmentReason ctx,
      appointmentType ctx, appointmentDate ctx, appointmentReason ctx)"

definition idleState ::
  "bool \<times> bool \<times> bool \<times> string option \<times> string option \<times> string option" where
  "idleState = (False, False, False, None, None, None)"

text \<open>
  The step that \<open>handleAppointmentFlow\<close> makes on the appointment part of the context,
  read off its branches; the proofs below go through it.
\<close>

definition flowStep ::
  "string \<Rightarrow> bool \<times> bool \<times> bool \<times> string option \<times> string option \<times> string option \<Rightarrow>
     bool \<times> bool \<times> bool \<times> string option \<times> string option \<times> string option" where
  "flowStep message st =
     (case st of (t, d, r, ty, da, re) \<Rightarrow>
        if toLowerCase message \<in> set bookingTriggers \<and> \<not> t then (True, d, r, ty, da, re)
        else if t \<and> \<not> d then
          (if toLowerCase message \<notin> set bookingTriggers then (t, True, r, Some message, da, re)
           else st)
        else if d \<and> \<not> r then (t, d, True, ty, Some message, re)
        else if r then idleState
        else if \<not> t then (True, d, r, ty, da, re)
        else st)"

section \<open>Sessions over several turns\<close>

text \<open>
  The process as it starts with an empty store, and what the chat endpoint does before
  it calls \<open>generateResponse\<close> for a session id that the cache does not hold: a new
  context goes into the cache and a row with all flags false into the store
  (\<open>database.createSession\<close>, which changes nothing when the row exists).
\<close>

definition initialWorld :: world where
  "initialWorld =
     \<lparr>sessions = Map.empty,
      db = \<lparr>db_sessions = Map.empty, db_messages = (\<lambda>sid. [])\<rparr>,
      stats = \<lparr>emergencyCount = 0\<rparr>,
      alerts = [],
      aiCalls = 0\<rparr>"

definition createSession :: "string \<Rightarrow> profile \<Rightarrow> metadata \<Rightarrow> database \<Rightarrow> database" where
  "createSession sid info md d =
     (case db_sessions d sid of
        Some row \<Rightarrow> d
      | None \<Rightarrow> d\<lparr>db_sessions := (db_sessions d)(sid \<mapsto>
          \<lparr>row_userInfo = info, row_metadata = md\<rparr>)\<rparr>)"

definition openSession :: "string \<Rightarrow> world \<Rightarrow> world" where
  "openSession sid w =
     (case sessions w sid of
        Some ctx \<Rightarrow> w
      | None \<Rightarrow>
          w\<lparr>sessions := (sessions w)(sid \<mapsto> freshContext sid),
            db := createSession sid \<lparr>ui_medications = None, ui_symptoms = None\<rparr>
              \<lparr>md_currentTopic = None, md_askedDuration = Some False,
               md_askedSeverity = Some False, md_askedOtherSymptoms = Some False,
               md_askedAppointmentType = Some False, md_askedAppointmentDate = Some False,
               md_askedAppointmentReason = Some False, md_appointmentType = None,
               md_appointmentDate = None, md_appointmentReason = None\<rparr> (db w)\<rparr>)"

text \<open>Consecutive turns of one session, each with its own input from outside.\<close>

fun runTurns :: "(env \<times> string) list \<Rightarrow> string \<Rightarrow> world \<Rightarrow> world" where
  "runTurns [] sid w = w"
| "runTurns ((e, userMessage) # rest) sid w =
     runTurns rest sid (snd (generateResponse e userMessage sid w))"

text \<open>
  A restart of the process: the cache is empty again, the store is what it was, and
  \<open>syncSessionsFromDB\<close> fills the cache from the store.
\<close>

definition restart :: "world \<Rightarrow> world" where
  "restart w = syncSessionsFromDB (w\<lparr>sessions := Map.empty\<rparr>)"

text \<open>Inputs for the examples: no generative service, first template.\<close>

definition ruleBased :: env where
  "ruleBased = \<lparr>rnd = 0, aiAvailable = False, aiReply = None\<rparr>"

definition waitingForType :: sessionContext where
  "waitingForType = (freshContext ''s1'')\<lparr>askedAppointmentType := True\<rparr>"

definition waitingWorld :: world where
  "waitingWorld = initialWorld\<lparr>sessions := [''s1'' \<mapsto> waitingForType]\<rparr>"

definition bookingStarted :: world where
  "bookingStarted = runTurns [(ruleBased, ''Book Now'')] ''s1'' (openSession ''s1'' initialWorld)"

definition typeGiven :: world where
  "typeGiven = runTurns [(ruleBased, ''Book Now''), (ruleBased, ''General Checkup'')] ''s1''
     (openSession ''s1'' initialWorld)"

section \<open>Properties of the text analysis\<close>

lemma startsWith_map: "startsWith s k \<Longrightarrow> startsWith (map f s) (map f k)"
  by (induction s k rule: startsWith.induct) auto

lemma str_includes_map: "str_includes s k \<Longrightarrow> str_includes (map f s) (map f k)"
  by (induction s) (auto dest: startsWith_map [where f = f])

lemma str_includes_lower:
  "str_includes message kw \<Longrightarrow> toLowerCase kw = kw \<Longrightarrow> str_includes (toLowerCase message) kw"
  using str_includes_map [of message kw toLowerChar] by (simp add: toLowerCase_def)

lemma emergency_keywords_lower:
  "kw \<in> set (tl_keywords emergencyLevel) \<Longrightarrow> toLowerCase kw = kw"
proof -
  have "list_all (\<lambda>kw. toLowerCase kw = kw) (tl_keywords emergencyLevel)" by code_simp
  then show "kw \<in> set (tl_keywords emergencyLevel) \<Longrightarrow> toLowerCase kw = kw"
    by (simp add: list_all_iff)
qed

lemma fold_count_up:
  "fold (\<lambda>w sc. if P w then sc + 1 else sc) ws (s::int) = s + int (length (filter P ws))"
  by (induction ws arbitrary: s) auto

lemma fold_count_down:
  "fold (\<lambda>w sc. if P w then sc - 1 else sc) ws (s::int) = s - int (length (filter P ws))"
  by (induction ws arbitrary: s) auto

subsection \<open>Sentiment (C10)\<close>

text \<open>
  C10, as stated, has every occurrence of a lexicon word count. The code adds or
  subtracts one per lexicon word that occurs at all: in \<open>good good bad\<close> the two
  occurrences of \<open>good\<close> count once, the score is zero and the result is neutral, where
  counting occurrences gives a score of one and positive.
\<close>

theorem analyzeSentiment_counts_words_once_counterexample:
  "analyzeSentiment ''good good bad'' = Neutral \<and>
   spec_analyzeSentiment ''good good bad'' = Positive"
  by code_simp

text \<open>
  C10 as amended: for every text of ASCII characters, \<open>analyzeSentiment\<close> lower-cases
  the text and scores it as the number of positive lexicon words that occur in it
  minus the number of negative lexicon words that occur in it, each word counted once
  however often it occurs; the result is positive for a score above zero, negative
  below zero and neutral otherwise. The three examples of the specification come out
  positive, negative and neutral.
\<close>

theorem analyzeSentiment_score:
  "(asciiText message \<longrightarrow>
    analyzeSentiment message =
     (let msg = toLowerCase message;
          score = int (length (filter (str_includes msg) positiveWords))
                - int (length (filter (str_includes msg) negativeWords))
      in if score > 0 then Positive else if score < 0 then Negative else Neutral)) \<and>
   analyzeSentiment ''I feel great today'' = Positive \<and>
   analyzeSentiment ''I have pain and I'm scared'' = Negative \<and>
   analyzeSentiment ''I have a question'' = Neutral"
proof -
  have "analyzeSentiment message =
     (let msg = toLowerCase message;
          score = int (length (filter (str_includes msg) positiveWords))
                - int (length (filter (str_includes msg) negativeWords))
      in if score > 0 then Positive else if score < 0 then Negative else Neutral)"
    by (simp add: analyzeSentiment_def fold_count_up fold_count_down Let_def)
  moreover have "analyzeSentiment ''I feel great today'' = Positive" by code_simp
  moreover have "analyzeSentiment ''I have pain and I'm scared'' = Negative" by code_simp
  moreover have "analyzeSentiment ''I have a question'' = Neutral" by code_simp
  ultimately show ?thesis by blast
qed

theorem analyzeSentiment_score_witness:
  "analyzeSentiment ''ok, okay: good good bad'' = Positive"
proof -
  have "(let msg = toLowerCase ''ok, okay: good good bad'';
          score = int (length (filter (str_includes msg) positiveWords))
                - int (length (filter (str_includes msg) negativeWords))
      in if score > 0 then Positive else if score < 0 then Negative else Neutral) = Positive"
    by code_simp
  moreover have "asciiText ''ok, okay: good good bad''" by code_simp
  ultimately show ?thesis
    using analyzeSentiment_score [of "''ok, okay: good good bad''"] by simp
qed

subsection \<open>Triage (C2, C4)\<close>

text \<open>
  C2: a text that contains an emergency keyword (as it stands or after lower-casing)
  is triaged as emergency, priority 1, CRITICAL, whatever the severity and duration;
  this covers a text that also contains an urgent keyword. A text with an urgent
  keyword is never triaged below urgent, whatever the severity and duration: the
  result is emergency or urgent, priority at most 2, CRITICAL or HIGH. For a text of
  ASCII characters with an urgent keyword and no emergency keyword it is urgent,
  priority 2, HIGH. No later rule of the ladder lowers a keyword classification.
\<close>

theorem performTriage_keyword_precedence:
  "((\<exists>kw \<in> set (tl_keywords emergencyLevel).
        str_includes message kw \<or> str_includes (toLowerCase message) kw) \<longrightarrow>
      fst (performTriage message info an) =
        \<lparr>triageLevel = LvEmergency, priority = 1, action = tl_action emergencyLevel,
         urgency = CRITICAL\<rparr>) \<and>
   (list_ex (str_includes (toLowerCase message)) (tl_keywords urgentLevel) \<longrightarrow>
      (triageLevel (fst (performTriage message info an)) = LvEmergency \<or>
       triageLevel (fst (performTriage message info an)) = LvUrgent) \<and>
      priority (fst (performTriage message info an)) \<le> 2 \<and>
      (urgency (fst (performTriage message info an)) = CRITICAL \<or>
       urgency (fst (performTriage message info an)) = HIGH)) \<and>
   (asciiText message \<and>
    \<not> list_ex (str_includes (toLowerCase message)) (tl_keywords emergencyLevel) \<and>
    list_ex (str_includes (toLowerCase message)) (tl_keywords urgentLevel) \<longrightarrow>
      fst (performTriage message info an) =
        \<lparr>triageLevel = LvUrgent, priority = 2, action = tl_action urgentLevel,
         urgency = HIGH\<rparr>) \<and>
   (list_ex (str_includes (toLowerCase message)) (tl_keywords emergencyLevel) \<and>
    list_ex (str_includes (toLowerCase message)) (tl_keywords urgentLevel) \<longrightarrow>
      triageLevel (fst (performTriage message info an)) = LvEmergency \<and>
      triageLevel (fst (performTriage message info an)) \<noteq> LvUrgent)"
proof -
  have c1: "(\<exists>kw \<in> set (tl_keywords emergencyLevel).
        str_includes message kw \<or> str_includes (toLowerCase message) kw) \<longrightarrow>
      fst (performTriage message info an) =
        \<lparr>triageLevel = LvEmergency, priority = 1, action = tl_action emergencyLevel,
         urgency = CRITICAL\<rparr>"
  proof
    assume "\<exists>kw \<in> set (tl_keywords emergencyLevel).
        str_includes message kw \<or> str_includes (toLowerCase message) kw"
    then obtain kw where kw: "kw \<in> set (tl_keywords emergencyLevel)"
      and "str_includes message kw \<or> str_includes (toLowerCase message) kw" by blast
    then have "str_includes (toLowerCase message) kw"
      using str_includes_lower emergency_keywords_lower by blast
    with kw have "list_ex (str_includes (toLowerCase message)) (tl_keywords emergencyLevel)"
      unfolding list_ex_iff by blast
    then show "fst (performTriage message info an) =
        \<lparr>triageLevel = LvEmergency, priority = 1, action = tl_action emergencyLevel,
         urgency = CRITICAL\<rparr>"
      by (simp add: performTriage_def)
  qed
  have c2: "list_ex (str_includes (toLowerCase message)) (tl_keywords urgentLevel) \<longrightarrow>
      (triageLevel (fst (performTriage message info an)) = LvEmergency \<or>
       triageLevel (fst (performTriage message info an)) = LvUrgent) \<and>
      priority (fst (performTriage message info an)) \<le> 2 \<and>
      (urgency (fst (performTriage message info an)) = CRITICAL \<or>
       urgency (fst (performTriage message info an)) = HIGH)"
    by (simp add: performTriage_def Let_def)
  have c3: "asciiText message \<and>
    \<not> list_ex (str_includes (toLowerCase message)) (tl_keywords emergencyLevel) \<and>
    list_ex (str_includes (toLowerCase message)) (tl_keywords urgentLevel) \<longrightarrow>
      fst (performTriage message info an) =
        \<lparr>triageLevel = LvUrgent, priority = 2, action = tl_action urgentLevel,
         urgency = HIGH\<rparr>"
    by (simp add: performTriage_def)
  have c4: "list_ex (str_includes (toLowerCase message)) (tl_keywords emergencyLevel) \<and>
    list_ex (str_includes (toLowerCase message)) (tl_keywords urgentLevel) \<longrightarrow>
      triageLevel (fst (performTriage message info an)) = LvEmergency \<and>
      triageLevel (fst (performTriage message info an)) \<noteq> LvUrgent"
    by (simp add: performTriage_def)
  from c1 c2 c3 c4 show ?thesis by blast
qed

theorem performTriage_keyword_precedence_witness:
  "fst (performTriage ''Severe pain and CHEST PAIN since this morning''
      \<lparr>si_symptoms = [], si_duration = Some ''1 day'', si_severity = Some ''mild''\<rparr>
      \<lparr>emergencyCount = 0\<rparr>) =
     \<lparr>triageLevel = LvEmergency, priority = 1, action = tl_action emergencyLevel,
      urgency = CRITICAL\<rparr> \<and>
   fst (performTriage ''I have a high fever''
      \<lparr>si_symptoms = [], si_duration = Some ''1 day'', si_severity = Some ''mild''\<rparr>
      \<lparr>emergencyCount = 0\<rparr>) =
     \<lparr>triageLevel = LvUrgent, priority = 2, action = tl_action urgentLevel, urgency = HIGH\<rparr>"
proof -
  have h1: "\<exists>kw \<in> set (tl_keywords emergencyLevel).
      str_includes ''Severe pain and CHEST PAIN since this morning'' kw \<or>
      str_includes (toLowerCase ''Severe pain and CHEST PAIN since this morning'') kw"
    by code_simp
  have h2: "asciiText ''I have a high fever'' \<and>
            \<not> list_ex (str_includes (toLowerCase ''I have a high fever''))
                (tl_keywords emergencyLevel) \<and>
            list_ex (str_includes (toLowerCase ''I have a high fever''))
                (tl_keywords urgentLevel)"
    by code_simp
  from h1 performTriage_keyword_precedence
    [of "''Severe pain and CHEST PAIN since this morning''"]
  have "fst (performTriage ''Severe pain and CHEST PAIN since this morning''
      \<lparr>si_symptoms = [], si_duration = Some ''1 day'', si_severity = Some ''mild''\<rparr>
      \<lparr>emergencyCount = 0\<rparr>) =
     \<lparr>triageLevel = LvEmergency, priority = 1, action = tl_action emergencyLevel,
      urgency = CRITICAL\<rparr>"
    by blast
  moreover from h2 performTriage_keyword_precedence [of "''I have a high fever''"]
  have "fst (performTriage ''I have a high fever''
      \<lparr>si_symptoms = [], si_duration = Some ''1 day'', si_severity = Some ''mild''\<rparr>
      \<lparr>emergencyCount = 0\<rparr>) =
     \<lparr>triageLevel = LvUrgent, priority = 2, action = tl_action urgentLevel, urgency = HIGH\<rparr>"
    by blast
  ultimately show ?thesis by blast
qed

text \<open>
  C4, as stated, names the actions \<open>contact emergency services immediately\<close> and
  \<open>schedule a routine appointment\<close>. The actions of the code are the configured texts
  \<open>Call 911 immediately\<close> and \<open>Schedule routine appointment\<close>.
\<close>

theorem performTriage_action_text_counterexample:
  "action (fst (performTriage ''chest pain''
      \<lparr>si_symptoms = [], si_duration = None, si_severity = None\<rparr> \<lparr>emergencyCount = 0\<rparr>))
     \<noteq> ''contact emergency services immediately'' \<and>
   action (fst (performTriage ''hello''
      \<lparr>si_symptoms = [], si_duration = None, si_severity = None\<rparr> \<lparr>emergencyCount = 0\<rparr>))
     \<noteq> ''schedule a routine appointment''"
  by code_simp

text \<open>
  C4 as amended: when the text contains an emergency keyword, \<open>performTriage\<close> returns
  the action \<open>Call 911 immediately\<close> and adds one to the emergency counter. For a
  text of ASCII characters without an emergency keyword the counter is left alone; and
  when no later rule matches either (no urgent keyword, no severity among severe,
  intense, extreme and moderate, no long duration, severity and duration being ASCII
  too), it returns routine, priority 4, LOW, with the action
  \<open>Schedule routine appointment\<close>.
\<close>

theorem performTriage_emergency_and_routine:
  "(list_ex (str_includes (toLowerCase message)) (tl_keywords emergencyLevel) \<longrightarrow>
      action (fst (performTriage message info an)) = ''Call 911 immediately'' \<and>
      snd (performTriage message info an) = an\<lparr>emergencyCount := emergencyCount an + 1\<rparr>) \<and>
   (asciiText message \<and>
    \<not> list_ex (str_includes (toLowerCase message)) (tl_keywords emergencyLevel) \<longrightarrow>
      snd (performTriage message info an) = an) \<and>
   (asciiText message \<and> asciiText (strOf (si_severity info)) \<and>
    asciiText (strOf (si_duration info)) \<and>
    \<not> list_ex (str_includes (toLowerCase message)) (tl_keywords emergencyLevel) \<and>
    \<not> list_ex (str_includes (toLowerCase message)) (tl_keywords urgentLevel) \<and>
    \<not> (truthy (si_severity info) \<and> toLowerCase (strOf (si_severity info)) \<in>
          set [''severe'', ''intense'', ''extreme'', ''moderate'']) \<and>
    \<not> (truthy (si_duration info) \<and> durationIsLong (strOf (si_duration info))) \<longrightarrow>
      fst (performTriage message info an) =
        \<lparr>triageLevel = LvRoutine, priority = 4, action = ''Schedule routine appointment'',
         urgency = LOW\<rparr>)"
  by (auto simp: performTriage_def emergencyLevel_def)

theorem performTriage_emergency_and_routine_witness:
  "performTriage ''my chest pain is back''
      \<lparr>si_symptoms = [], si_duration = None, si_severity = None\<rparr> \<lparr>emergencyCount = 4\<rparr> =
     (\<lparr>triageLevel = LvEmergency, priority = 1, action = ''Call 911 immediately'',
       urgency = CRITICAL\<rparr>, \<lparr>emergencyCount = 5\<rparr>) \<and>
   performTriage ''my knee is sore''
      \<lparr>si_symptoms = [], si_duration = Some ''3 days'', si_severity = Some ''mild''\<rparr>
      \<lparr>emergencyCount = 4\<rparr> =
     (\<lparr>triageLevel = LvRoutine, priority = 4, action = ''Schedule routine appointment'',
       urgency = LOW\<rparr>, \<lparr>emergencyCount = 4\<rparr>)"
proof -
  let ?none = "\<lparr>si_symptoms = [], si_duration = None, si_severity = None\<rparr>"
  let ?mild = "\<lparr>si_symptoms = [], si_duration = Some ''3 days'', si_severity = Some ''mild''\<rparr>"
  have h1: "list_ex (str_includes (toLowerCase ''my chest pain is back''))
      (tl_keywords emergencyLevel)"
    by code_simp
  have h2: "asciiText ''my knee is sore'' \<and> asciiText (strOf (si_severity ?mild)) \<and>
    asciiText (strOf (si_duration ?mild)) \<and>
    \<not> list_ex (str_includes (toLowerCase ''my knee is sore'')) (tl_keywords emergencyLevel) \<and>
    \<not> list_ex (str_includes (toLowerCase ''my knee is sore'')) (tl_keywords urgentLevel) \<and>
    \<not> (truthy (si_severity ?mild) \<and> toLowerCase (strOf (si_severity ?mild)) \<in>
          set [''severe'', ''intense'', ''extreme'', ''moderate'']) \<and>
    \<not> (truthy (si_duration ?mild) \<and> durationIsLong (strOf (si_duration ?mild)))"
    by code_simp
  have e: "fst (performTriage ''my chest pain is back'' ?none \<lparr>emergencyCount = 4\<rparr>) =
      \<lparr>triageLevel = LvEmergency, priority = 1, action = ''Call 911 immediately'',
       urgency = CRITICAL\<rparr>"
    by code_simp
  from h1 performTriage_emergency_and_routine
    [of "''my chest pain is back''" ?none "\<lparr>emergencyCount = 4\<rparr>"]
  have "snd (performTriage ''my chest pain is back'' ?none \<lparr>emergencyCount = 4\<rparr>) =
      \<lparr>emergencyCount = 5\<rparr>"
    by simp
  with e have a: "performTriage ''my chest pain is back'' ?none \<lparr>emergencyCount = 4\<rparr> =
     (\<lparr>triageLevel = LvEmergency, priority = 1, action = ''Call 911 immediately'',
       urgency = CRITICAL\<rparr>, \<lparr>emergencyCount = 5\<rparr>)"
    by (simp add: prod_eq_iff)
  from h2 performTriage_emergency_and_routine
    [of "''my knee is sore''" ?mild "\<lparr>emergencyCount = 4\<rparr>"]
  have "fst (performTriage ''my knee is sore'' ?mild \<lparr>emergencyCount = 4\<rparr>) =
        \<lparr>triageLevel = LvRoutine, priority = 4, action = ''Schedule routine appointment'',
         urgency = LOW\<rparr> \<and>
      snd (performTriage ''my knee is sore'' ?mild \<lparr>emergencyCount = 4\<rparr>) = \<lparr>emergencyCount = 4\<rparr>"
    by blast
  then have b: "performTriage ''my knee is sore'' ?mild \<lparr>emergencyCount = 4\<rparr> =
     (\<lparr>triageLevel = LvRoutine, priority = 4, action = ''Schedule routine appointment'',
       urgency = LOW\<rparr>, \<lparr>emergencyCount = 4\<rparr>)"
    by (simp add: prod_eq_iff)
  from a b show ?thesis by blast
qed

subsection \<open>Medication interactions (C5)\<close>

lemma interactionsFrom_complete:
  "forwardPair meds i j info \<Longrightarrow> pairRecord meds i j info \<in> set (interactionsFrom meds)"
proof (induction meds arbitrary: i j)
  case Nil
  then show ?case by (simp add: forwardPair_def)
next
  case (Cons m rest)
  from Cons.prems obtain j' where j: "j = Suc j'" and j'len: "j' < length rest"
    by (cases j) (auto simp: forwardPair_def)
  show ?case
  proof (cases i)
    case 0
    with Cons.prems j j'len show ?thesis
      by (auto simp: forwardPair_def pairRecord_def)
  next
    case (Suc i')
    with Cons.prems j have "forwardPair rest i' j' info"
      by (simp add: forwardPair_def)
    from Cons.IH [OF this] Suc j show ?thesis
      by (simp add: pairRecord_def)
  qed
qed

lemma interactionsFrom_sound:
  "x \<in> set (interactionsFrom meds) \<Longrightarrow>
     \<exists>i j info. forwardPair meds i j info \<and> x = pairRecord meds i j info"
proof (induction meds)
  case Nil
  then show ?case by simp
next
  case (Cons m rest)
  show ?case
  proof (cases "x \<in> set (interactionsFrom rest)")
    case True
    from Cons.IH [OF this] obtain i j info where
      "forwardPair rest i j info" "x = pairRecord rest i j info" by blast
    then have "forwardPair (m # rest) (Suc i) (Suc j) info \<and>
        x = pairRecord (m # rest) (Suc i) (Suc j) info"
      by (simp add: forwardPair_def pairRecord_def)
    then show ?thesis by blast
  next
    case False
    with Cons.prems obtain info where
      info: "map_of medicationInteractions (toLowerCase m) = Some info" and
      x: "x \<in> (\<lambda>med2. \<lparr>medication1 = toLowerCase m, medication2 = med2,
              warning = mi_warnings info\<rparr>) `
            {med2 \<in> set (map toLowerCase rest). med2 \<in> set (mi_interactions info)}"
      by (cases "map_of medicationInteractions (toLowerCase m)") (auto simp: Let_def)
    from x obtain med2 where med2: "med2 \<in> set (map toLowerCase rest)"
      "med2 \<in> set (mi_interactions info)"
      "x = \<lparr>medication1 = toLowerCase m, medication2 = med2,
              warning = mi_warnings info\<rparr>"
      by blast
    from med2(1) obtain k where "k < length rest" "med2 = toLowerCase (rest ! k)"
      by (auto simp: in_set_conv_nth)
    with med2 have k: "k < length rest"
      "toLowerCase (rest ! k) \<in> set (mi_interactions info)"
      "x = \<lparr>medication1 = toLowerCase m, medication2 = toLowerCase (rest ! k),
              warning = mi_warnings info\<rparr>"
      by simp_all
    with info have "forwardPair (m # rest) 0 (Suc k) info \<and>
        x = pairRecord (m # rest) 0 (Suc k) info"
      by (simp add: forwardPair_def pairRecord_def)
    then show ?thesis by blast
  qed
qed

text \<open>
  C5, as stated, has both directions of the table checked. The code consults only the
  entry of the earlier medication of a pair: for \<open>vitamin k\<close> followed by \<open>warfarin\<close>
  there is no record and no warning, although the entry of \<open>warfarin\<close> lists
  \<open>vitamin k\<close>.
\<close>

theorem checkMedicationInteractions_one_direction_counterexample:
  "checkMedicationInteractions [''vitamin k'', ''warfarin''] = ([], []) \<and>
   map_option mi_interactions (map_of medicationInteractions ''warfarin'') =
     Some [''aspirin'', ''ibuprofen'', ''vitamin k'']"
  by code_simp

text \<open>
  C5 as amended: for every medication list of ASCII names of which none lower-cases to
  a name that the table object inherits (\<open>constructor\<close>, \<open>__proto__\<close>), and every pair
  of positions \<open>i < j\<close> in it,
  \<open>checkMedicationInteractions\<close> emits an interaction record and a warning whenever
  the table's entry for the (lower-cased) medication at \<open>i\<close> lists the (lower-cased)
  medication at \<open>j\<close>; every record it emits comes from such a pair, the entry of the
  later medication is not consulted, and there is one warning per record.
\<close>

theorem checkMedicationInteractions_forward_pairs:
  assumes "plainNames meds"
  shows
  "(forwardPair meds i j info \<longrightarrow>
      pairRecord meds i j info \<in> set (fst (checkMedicationInteractions meds)) \<and>
      warningText (pairRecord meds i j info) \<in> set (snd (checkMedicationInteractions meds))) \<and>
   (x \<in> set (fst (checkMedicationInteractions meds)) \<longrightarrow>
      (\<exists>i j info. forwardPair meds i j info \<and> x = pairRecord meds i j info)) \<and>
   snd (checkMedicationInteractions meds) =
     map warningText (fst (checkMedicationInteractions meds))"
  using interactionsFrom_complete [of meds i j info] interactionsFrom_sound [of x meds]
  by (auto simp: checkMedicationInteractions_def Let_def)

theorem checkMedicationInteractions_forward_pairs_witness:
  "\<lparr>medication1 = ''aspirin'', medication2 = ''warfarin'',
     warning = ''May increase bleeding risk when combined with blood thinners''\<rparr>
     \<in> set (fst (checkMedicationInteractions [''Aspirin'', ''tylenol'', ''Warfarin'']))"
proof -
  let ?info = "\<lparr>mi_interactions = [''warfarin'', ''ibuprofen'', ''naproxen''],
         mi_warnings = ''May increase bleeding risk when combined with blood thinners''\<rparr>"
  have h: "forwardPair [''Aspirin'', ''tylenol'', ''Warfarin''] 0 2 ?info"
    by code_simp
  have p: "plainNames [''Aspirin'', ''tylenol'', ''Warfarin'']"
    by code_simp
  have r: "pairRecord [''Aspirin'', ''tylenol'', ''Warfarin''] 0 2 ?info =
      \<lparr>medication1 = ''aspirin'', medication2 = ''warfarin'',
        warning = ''May increase bleeding risk when combined with blood thinners''\<rparr>"
    by code_simp
  from h checkMedicationInteractions_forward_pairs [OF p, of 0 2 ?info]
  have "pairRecord [''Aspirin'', ''tylenol'', ''Warfarin''] 0 2 ?info
      \<in> set (fst (checkMedicationInteractions [''Aspirin'', ''tylenol'', ''Warfarin'']))"
    by blast
  with r show ?thesis by simp
qed

section \<open>Properties of the appointment flow and of a turn\<close>

subsection \<open>The flow controller\<close>

lemma handler_state:
  "appointmentState (fst (snd (handleAppointmentFlow r message ctx sid w))) =
     flowStep message (appointmentState ctx)"
  by (simp add: handleAppointmentFlow_def startFlow_def Let_def flowPersist_def pushTurn_def
      appointmentState_def flowStep_def idleState_def)

lemma handler_world:
  "alerts (snd (snd (handleAppointmentFlow r message ctx sid w))) = alerts w \<and>
   stats (snd (snd (handleAppointmentFlow r message ctx sid w))) = stats w \<and>
   aiCalls (snd (snd (handleAppointmentFlow r message ctx sid w))) = aiCalls w"
  by (simp add: handleAppointmentFlow_def startFlow_def Let_def flowPersist_def pushTurn_def)

lemma handler_answers:
  assumes "\<not> (askedAppointmentType ctx \<and> \<not> askedAppointmentDate ctx \<and>
              toLowerCase message \<in> set bookingTriggers)"
    and "inFlow ctx \<or> \<not> askedAppointmentType ctx"
  shows "\<exists>fr. fst (handleAppointmentFlow r message ctx sid w) = Some fr \<and> fr_response fr \<noteq> [] \<and>
     sessions (snd (snd (handleAppointmentFlow r message ctx sid w))) (flowSid sid ctx) =
       Some (fst (snd (handleAppointmentFlow r message ctx sid w)))"
  using assms
  by (auto simp add: handleAppointmentFlow_def startFlow_def Let_def flowPersist_def pushTurn_def
      inFlow_def)

lemma handler_guard:
  assumes "askedAppointmentType ctx" "\<not> askedAppointmentDate ctx"
    "toLowerCase message \<in> set bookingTriggers"
  shows "handleAppointmentFlow r message ctx sid w = (None, ctx, w)"
  using assms by (simp add: handleAppointmentFlow_def Let_def)

subsection \<open>A turn of a session that is in the flow\<close>

lemma loadContext_hit: "sessions w sid = Some ctx \<Longrightarrow> loadContext sid w = (ctx, w)"
  by (simp add: loadContext_def)

lemma loadContext_world:
  "alerts (snd (loadContext sid w)) = alerts w \<and> stats (snd (loadContext sid w)) = stats w \<and>
   aiCalls (snd (loadContext sid w)) = aiCalls w"
  by (simp add: loadContext_def Let_def split: option.split)

lemma beginTurn_state:
  "appointmentState (fst (snd (beginTurn m sid ctx w))) = appointmentState ctx"
  by (simp add: beginTurn_def Let_def pushTurn_def appointmentState_def)

lemma beginTurn_inFlow: "inFlow (fst (snd (beginTurn m sid ctx w))) = inFlow ctx"
  by (simp add: beginTurn_def Let_def pushTurn_def inFlow_def)

lemma beginTurn_intent: "tf_intent (fst (beginTurn m sid ctx w)) = detectIntent m"
  by (simp add: beginTurn_def Let_def)

lemma beginTurn_world:
  "snd (snd (beginTurn m sid ctx w)) = w\<lparr>db := saveMessage sid User m (db w)\<rparr>"
  by (simp add: beginTurn_def Let_def)

lemma flowSid_nonempty: "sid \<noteq> [] \<Longrightarrow> flowSid sid ctx = sid"
  by (simp add: flowSid_def)

lemma generateResponse_in_flow:
  assumes hit: "sessions w sid = Some ctx" and fl: "inFlow ctx"
    and ng: "\<not> (askedAppointmentType ctx \<and> \<not> askedAppointmentDate ctx \<and>
                toLowerCase m \<in> set bookingTriggers)"
  shows "\<exists>fr. fst (handleAppointmentFlow (rnd e) m (fst (snd (beginTurn m sid ctx w))) sid
                 (snd (snd (beginTurn m sid ctx w)))) = Some fr \<and>
      generateResponse e m sid w =
        (flowResult fr, snd (snd (handleAppointmentFlow (rnd e) m
            (fst (snd (beginTurn m sid ctx w))) sid (snd (snd (beginTurn m sid ctx w))))))"
proof -
  let ?ctxB = "fst (snd (beginTurn m sid ctx w))"
  let ?wB = "snd (snd (beginTurn m sid ctx w))"
  have st: "appointmentState ?ctxB = appointmentState ctx" by (rule beginTurn_state)
  have flB: "inFlow ?ctxB" using fl by (simp add: beginTurn_inFlow)
  have ngB: "\<not> (askedAppointmentType ?ctxB \<and> \<not> askedAppointmentDate ?ctxB \<and>
                toLowerCase m \<in> set bookingTriggers)"
    using ng st by (simp add: appointmentState_def)
  from handler_answers [OF ngB, of "rnd e" sid ?wB] flB
  obtain fr where fr: "fst (handleAppointmentFlow (rnd e) m ?ctxB sid ?wB) = Some fr"
    "fr_response fr \<noteq> []" by blast
  then have "answered (fst (handleAppointmentFlow (rnd e) m ?ctxB sid ?wB)) = Some fr"
    by (simp add: answered_def)
  with flB have "generateResponse e m sid w =
        (flowResult fr, snd (snd (handleAppointmentFlow (rnd e) m ?ctxB sid ?wB)))"
    by (simp add: generateResponse_def loadContext_hit [OF hit] Let_def case_prod_beta)
  with fr show ?thesis by blast
qed

lemma in_flow_turn:
  assumes hit: "sessions w sid = Some ctx" and fl: "inFlow ctx"
    and ng: "\<not> (askedAppointmentType ctx \<and> \<not> askedAppointmentDate ctx \<and>
                toLowerCase m \<in> set bookingTriggers)"
    and sid: "sid \<noteq> []"
  shows "\<exists>ctx' fr. sessions (snd (generateResponse e m sid w)) sid = Some ctx' \<and>
      appointmentState ctx' = flowStep m (appointmentState ctx) \<and>
      fst (generateResponse e m sid w) = flowResult fr \<and> fr_response fr \<noteq> [] \<and>
      alerts (snd (generateResponse e m sid w)) = alerts w \<and>
      stats (snd (generateResponse e m sid w)) = stats w \<and>
      aiCalls (snd (generateResponse e m sid w)) = aiCalls w"
proof -
  let ?ctxB = "fst (snd (beginTurn m sid ctx w))"
  let ?wB = "snd (snd (beginTurn m sid ctx w))"
  let ?H = "handleAppointmentFlow (rnd e) m ?ctxB sid ?wB"
  have st: "appointmentState ?ctxB = appointmentState ctx" by (rule beginTurn_state)
  have flB: "inFlow ?ctxB" using fl by (simp add: beginTurn_inFlow)
  have ngB: "\<not> (askedAppointmentType ?ctxB \<and> \<not> askedAppointmentDate ?ctxB \<and>
                toLowerCase m \<in> set bookingTriggers)"
    using ng st by (simp add: appointmentState_def)
  from generateResponse_in_flow [OF hit fl ng, of e]
  obtain fr where fr: "fst ?H = Some fr" "generateResponse e m sid w = (flowResult fr, snd (snd ?H))"
    by blast
  from handler_answers [OF ngB, of "rnd e" sid ?wB] flB fr(1)
  have ans: "fr_response fr \<noteq> []" "sessions (snd (snd ?H)) sid = Some (fst (snd ?H))"
    by (auto simp: flowSid_nonempty [OF sid])
  have "appointmentState (fst (snd ?H)) = flowStep m (appointmentState ctx)"
    using handler_state [of "rnd e" m ?ctxB sid ?wB] st by simp
  moreover have "alerts (snd (snd ?H)) = alerts w \<and> stats (snd (snd ?H)) = stats w \<and>
      aiCalls (snd (snd ?H)) = aiCalls w"
    using handler_world [of "rnd e" m ?ctxB sid ?wB] by (simp add: beginTurn_world)
  ultimately show ?thesis using fr ans
    by (intro exI [of _ "fst (snd ?H)"] exI [of _ fr]) simp
qed

subsection \<open>Trigger phrases, and what the branches of a turn leave alone\<close>

lemma pick_in_set: "xs \<noteq> [] \<Longrightarrow> pick r xs \<in> set xs"
  by (simp add: pick_def)

lemma trigger_intent:
  assumes "trim (toLowerCase m) \<in> set bookingTriggers"
  shows "detectIntent m = IAppointment"
proof -
  have "list_all (\<lambda>t. (case filter (\<lambda>(i, alts). wordAltTest alts t) intents of
            [] \<Rightarrow> IGeneral | (i, _) # _ \<Rightarrow> i) = IAppointment) bookingTriggers"
    by code_simp
  with assms show ?thesis by (simp add: list_all_iff detectIntent_def Let_def)
qed

lemma trigger_trim:
  assumes "toLowerCase m \<in> set bookingTriggers"
  shows "trim (toLowerCase m) = toLowerCase m"
proof -
  have "list_all (\<lambda>t. trim t = t) bookingTriggers" by code_simp
  with assms show ?thesis by (simp add: list_all_iff)
qed

lemma keyword_not_trigger:
  assumes "list_ex (str_includes (toLowerCase m)) (tl_keywords emergencyLevel)"
  shows "toLowerCase m \<notin> set bookingTriggers"
proof -
  have "list_all (\<lambda>t. \<not> list_ex (str_includes t) (tl_keywords emergencyLevel)) bookingTriggers"
    by code_simp
  with assms show ?thesis by (auto simp: list_all_iff)
qed

lemma emergency_not_trigger:
  assumes "detectIntent m = IEmergency"
  shows "toLowerCase m \<notin> set bookingTriggers"
proof
  assume t: "toLowerCase m \<in> set bookingTriggers"
  then have "trim (toLowerCase m) \<in> set bookingTriggers" by (simp add: trigger_trim)
  then have "detectIntent m = IAppointment" by (rule trigger_intent)
  with assms show False by simp
qed

lemma emergencyReply_facts:
  "r_response (fst (emergencyReply e m sid ctx w)) = pick (rnd e) emergencyResponses \<and>
   r_triage (fst (emergencyReply e m sid ctx w)) = Some (Brief CRITICAL 1) \<and>
   alerts (snd (emergencyReply e m sid ctx w)) = alerts w @ [(sid, m)] \<and>
   aiCalls (snd (emergencyReply e m sid ctx w)) = aiCalls w \<and>
   emergencyCount (stats (snd (emergencyReply e m sid ctx w))) = emergencyCount (stats w) + 1 \<and>
   (\<exists>ctx'. sessions (snd (emergencyReply e m sid ctx w)) sid = Some ctx' \<and>
      appointmentState ctx' = appointmentState ctx)"
  by (simp add: emergencyReply_def Let_def plainResult_def pushTurn_def appointmentState_def)

lemma assessment_state:
  "appointmentState (fst (snd (generateSymptomAssessment m ctx an))) = appointmentState ctx"
  by (simp add: generateSymptomAssessment_def Let_def case_prod_beta appointmentState_def
      split: list.split)

lemma symptomReply_keeps:
  "\<exists>ctx'. sessions (snd (symptomReply e m sid facts ai ctx w)) sid = Some ctx' \<and>
      appointmentState ctx' = appointmentState ctx"
  using assessment_state [of m ctx "stats w"]
  by (simp add: symptomReply_def Let_def case_prod_beta pushTurn_def appointmentState_def
      split: option.split)

lemma medicationReply_keeps:
  "medicationReply e sid facts ctx w = Some rw \<Longrightarrow>
     \<exists>ctx'. sessions (snd rw) sid = Some ctx' \<and> appointmentState ctx' = appointmentState ctx"
  by (auto simp add: medicationReply_def Let_def case_prod_beta pushTurn_def appointmentState_def
      split: if_splits)

lemma specialtyReply_keeps:
  "specialtyReply message sid facts ctx w = Some rw \<Longrightarrow>
     \<exists>ctx'. sessions (snd rw) sid = Some ctx' \<and> appointmentState ctx' = appointmentState ctx"
  by (auto simp add: specialtyReply_def Let_def pushTurn_def appointmentState_def
      split: if_splits list.splits)

lemma wellnessReply_keeps:
  "wellnessReply message sid facts ctx w = Some rw \<Longrightarrow>
     \<exists>ctx'. sessions (snd rw) sid = Some ctx' \<and> appointmentState ctx' = appointmentState ctx"
  by (auto simp add: wellnessReply_def Let_def pushTurn_def appointmentState_def
      split: if_splits list.splits)

lemma finishTurn_keeps:
  "\<exists>ctx'. sessions (snd (finishTurn sid intent response qa ai ctx w)) sid = Some ctx' \<and>
      appointmentState ctx' = appointmentState ctx"
  by (simp add: finishTurn_def Let_def pushTurn_def appointmentState_def)

lemma standardReply_state:
  "\<exists>ctx'. sessions (snd (standardReply e m sid facts ai ctx w)) sid = Some ctx' \<and>
      appointmentState ctx' =
        (if tf_intent facts = IAppointment \<and> \<not> truthy ai
         then flowStep m (appointmentState ctx) else appointmentState ctx)"
proof (cases "truthy ai")
  case True
  then show ?thesis
    using finishTurn_keeps [of sid "tf_intent facts" "strOf ai" "aiQuickActions (tf_intent facts)"
        True ctx w]
    by (simp add: standardReply_def Let_def)
next
  case False
  show ?thesis
  proof (cases "tf_intent facts = IAppointment")
    case True
    obtain fr ctx1 w1 where h: "handleAppointmentFlow (rnd e) m ctx sid w = (fr, ctx1, w1)"
      by (cases "handleAppointmentFlow (rnd e) m ctx sid w") auto
    with handler_state [of "rnd e" m ctx sid w]
    have st: "appointmentState ctx1 = flowStep m (appointmentState ctx)" by simp
    show ?thesis
    proof (cases fr)
      case None
      with h True False st show ?thesis
        using finishTurn_keeps [of sid IAppointment "pick (rnd e) appointmentResponses"
            "[''Book Now'', ''Find Doctor'', ''Check Availability'']" False ctx1 w1]
        by (simp add: standardReply_def Let_def)
    next
      case (Some f)
      with h True False st show ?thesis
        by (simp add: standardReply_def Let_def pushTurn_def appointmentState_def)
    qed
  next
    case na: False
    have "\<exists>response qa. standardReply e m sid facts ai ctx w =
        finishTurn sid (tf_intent facts) response qa False ctx w"
      using False na by (cases "tf_intent facts") (auto simp add: standardReply_def Let_def)
    then obtain response qa where "standardReply e m sid facts ai ctx w =
        finishTurn sid (tf_intent facts) response qa False ctx w" by blast
    with na show ?thesis
      using finishTurn_keeps [of sid "tf_intent facts" response qa False ctx w] by simp
  qed
qed

lemma askAI_world:
  "sessions (snd (askAI e w)) = sessions w \<and> alerts (snd (askAI e w)) = alerts w \<and>
   stats (snd (askAI e w)) = stats w \<and> db (snd (askAI e w)) = db w \<and>
   truthy (fst (askAI e w)) = (aiAvailable e \<and> truthy (aiReply e))"
  by (simp add: askAI_def truthy_def)

lemma respond_emergency:
  "tf_intent facts = IEmergency \<Longrightarrow>
     respond e m sid facts ctx w = emergencyReply e m sid ctx w"
  by (simp add: respond_def)

lemma respond_state:
  "\<exists>ctx'. sessions (snd (respond e m sid facts ctx w)) sid = Some ctx' \<and>
      appointmentState ctx' =
        (if tf_intent facts = IAppointment \<and> \<not> (aiAvailable e \<and> truthy (aiReply e))
         then flowStep m (appointmentState ctx) else appointmentState ctx)"
proof (cases "tf_intent facts = IEmergency")
  case True
  then show ?thesis using emergencyReply_facts [of e m sid ctx w]
    by (simp add: respond_emergency)
next
  case ne: False
  let ?ai = "fst (askAI e w)" and ?w = "snd (askAI e w)"
  show ?thesis
  proof (cases "tf_intent facts = ISymptom")
    case True
    with ne show ?thesis using symptomReply_keeps [of e m sid facts ?ai ctx ?w]
      by (simp add: respond_def case_prod_beta Let_def)
  next
    case ns: False
    show ?thesis
    proof (cases "medicationReply e sid facts ctx ?w")
      case (Some rw)
      then have "tf_intent facts = IMedication"
        by (simp add: medicationReply_def split: if_splits)
      with Some ne ns show ?thesis using medicationReply_keeps [OF Some]
        by (simp add: respond_def case_prod_beta Let_def)
    next
      case nm: None
      show ?thesis
      proof (cases "specialtyReply (trim (toLowerCase m)) sid facts ctx ?w")
        case (Some rw)
        then have "tf_intent facts = ISpecialty"
          by (simp add: specialtyReply_def split: if_splits)
        with Some nm ne ns show ?thesis using specialtyReply_keeps [OF Some]
          by (simp add: respond_def case_prod_beta Let_def)
      next
        case nsp: None
        show ?thesis
        proof (cases "wellnessReply (trim (toLowerCase m)) sid facts ctx ?w")
          case (Some rw)
          then have "tf_intent facts = IWellness"
            by (simp add: wellnessReply_def split: if_splits)
          with Some nsp nm ne ns show ?thesis using wellnessReply_keeps [OF Some]
            by (simp add: respond_def case_prod_beta Let_def)
        next
          case None
          with nsp nm ne ns have "respond e m sid facts ctx w =
              standardReply e m sid facts ?ai ctx ?w"
            by (simp add: respond_def case_prod_beta Let_def)
          then show ?thesis
            using standardReply_state [of e m sid facts ?ai ctx ?w] askAI_world [of e w]
            by simp
        qed
      qed
    qed
  qed
qed

subsection \<open>A turn of a session that is not in the flow\<close>

lemma loadContext_inFlow:
  "inFlow (fst (loadContext sid w)) \<Longrightarrow> sessions w sid = Some (fst (loadContext sid w))"
  by (auto simp: loadContext_def Let_def hydrate_def freshContext_def inFlow_def
      split: option.splits)

lemma flowStep_start:
  "\<not> t \<Longrightarrow> \<not> d \<Longrightarrow> \<not> r \<Longrightarrow> flowStep m (t, d, r, ty, da, re) = (True, False, False, ty, da, re)"
  by (simp add: flowStep_def)

lemma flowStep_guard:
  "t \<Longrightarrow> \<not> d \<Longrightarrow> toLowerCase m \<in> set bookingTriggers \<Longrightarrow>
     flowStep m (t, d, r, ty, da, re) = (t, d, r, ty, da, re)"
  by (simp add: flowStep_def)

lemma idle_trigger_turn:
  assumes idle: "\<not> inFlow (fst (loadContext sid w))"
    and trig: "trim (toLowerCase m) \<in> set bookingTriggers"
    and sid: "sid \<noteq> []"
  shows "\<exists>ctx' fr. sessions (snd (generateResponse e m sid w)) sid = Some ctx' \<and>
      appointmentState ctx' = flowStep m (appointmentState (fst (loadContext sid w))) \<and>
      fst (generateResponse e m sid w) = flowResult fr"
proof -
  let ?ctx0 = "fst (loadContext sid w)" and ?w0 = "snd (loadContext sid w)"
  let ?ctxB = "fst (snd (beginTurn m sid ?ctx0 ?w0))"
  let ?wB = "snd (snd (beginTurn m sid ?ctx0 ?w0))"
  let ?H = "handleAppointmentFlow (rnd e) m ?ctxB sid ?wB"
  have st: "appointmentState ?ctxB = appointmentState ?ctx0" by (rule beginTurn_state)
  have nfl: "\<not> inFlow ?ctxB" using idle by (simp add: beginTurn_inFlow)
  then have nt: "\<not> askedAppointmentType ?ctxB" by (simp add: inFlow_def)
  from handler_answers [of ?ctxB m "rnd e" sid ?wB] nt
  obtain fr where fr: "fst ?H = Some fr" "fr_response fr \<noteq> []"
    "sessions (snd (snd ?H)) sid = Some (fst (snd ?H))"
    by (auto simp: flowSid_nonempty [OF sid])
  then have ans: "answered (fst ?H) = Some fr" by (simp add: answered_def)
  have int: "tf_intent (fst (beginTurn m sid ?ctx0 ?w0)) = IAppointment"
    using trigger_intent [OF trig] by (simp add: beginTurn_intent)
  have gen: "generateResponse e m sid w = (flowResult fr, snd (snd ?H))"
    using nfl trig int ans
    by (simp add: generateResponse_def Let_def case_prod_beta answered_def)
  have "appointmentState (fst (snd ?H)) = flowStep m (appointmentState ?ctx0)"
    using handler_state [of "rnd e" m ?ctxB sid ?wB] st by simp
  with gen fr show ?thesis
    by (intro exI [of _ "fst (snd ?H)"] exI [of _ fr]) simp
qed

lemma idle_other_turn:
  assumes idle: "\<not> inFlow (fst (loadContext sid w))"
    and ntrig: "trim (toLowerCase m) \<notin> set bookingTriggers"
  shows "generateResponse e m sid w =
     respond e m sid
       (fst (beginTurn m sid (fst (loadContext sid w)) (snd (loadContext sid w))))
       (fst (snd (beginTurn m sid (fst (loadContext sid w)) (snd (loadContext sid w)))))
       (snd (snd (beginTurn m sid (fst (loadContext sid w)) (snd (loadContext sid w)))))"
  using idle ntrig
  by (simp add: generateResponse_def Let_def case_prod_beta answered_def beginTurn_inFlow)

lemma idle_turn_state:
  assumes idle: "\<not> inFlow (fst (loadContext sid w))" and sid: "sid \<noteq> []"
  shows "\<exists>ctx'. sessions (snd (generateResponse e m sid w)) sid = Some ctx' \<and>
      appointmentState ctx' =
        (if detectIntent m = IAppointment \<and>
            (trim (toLowerCase m) \<in> set bookingTriggers \<or>
             \<not> (aiAvailable e \<and> truthy (aiReply e)))
         then flowStep m (appointmentState (fst (loadContext sid w)))
         else appointmentState (fst (loadContext sid w)))"
proof (cases "trim (toLowerCase m) \<in> set bookingTriggers")
  case True
  with idle_trigger_turn [OF idle True sid, of e] trigger_intent [OF True]
  show ?thesis by auto
next
  case False
  let ?ctx0 = "fst (loadContext sid w)" and ?w0 = "snd (loadContext sid w)"
  let ?B = "beginTurn m sid ?ctx0 ?w0"
  from respond_state [of e m sid "fst ?B" "fst (snd ?B)" "snd (snd ?B)"]
  obtain ctx' where c: "sessions (snd (respond e m sid (fst ?B) (fst (snd ?B)) (snd (snd ?B)))) sid
        = Some ctx'"
    "appointmentState ctx' =
       (if tf_intent (fst ?B) = IAppointment \<and> \<not> (aiAvailable e \<and> truthy (aiReply e))
        then flowStep m (appointmentState (fst (snd ?B)))
        else appointmentState (fst (snd ?B)))"
    by blast
  from c(2) have "appointmentState ctx' =
       (if detectIntent m = IAppointment \<and> \<not> (aiAvailable e \<and> truthy (aiReply e))
        then flowStep m (appointmentState ?ctx0) else appointmentState ?ctx0)"
    by (simp only: beginTurn_intent beginTurn_state)
  with c(1) False have "sessions (snd (generateResponse e m sid w)) sid = Some ctx' \<and>
      appointmentState ctx' =
        (if detectIntent m = IAppointment \<and>
            (trim (toLowerCase m) \<in> set bookingTriggers \<or>
             \<not> (aiAvailable e \<and> truthy (aiReply e)))
         then flowStep m (appointmentState ?ctx0) else appointmentState ?ctx0)"
    by (simp only: idle_other_turn [OF idle False] simp_thms)
  then show ?thesis by blast
qed

subsection \<open>The guard on trigger phrases (C7)\<close>

text \<open>
  C7: in a context where the type has been asked and the date has not, a message that
  is a booking-trigger phrase (up to case) makes \<open>handleAppointmentFlow\<close> return
  \<open>null\<close> with the context and the process state as they were: the stored type is not
  touched and the flags stay as they are. In \<open>generateResponse\<close> the turn of such a
  session then falls through to the handling by intent, and the context that the turn
  leaves in the cache has the same appointment flags and values.
\<close>

theorem booking_trigger_is_not_a_type_answer:
  assumes t: "askedAppointmentType ctx" and d: "\<not> askedAppointmentDate ctx"
    and trig: "toLowerCase message \<in> set bookingTriggers"
  shows "handleAppointmentFlow r message ctx sid w = (None, ctx, w) \<and>
    (sessions w sid = Some ctx \<longrightarrow>
       generateResponse e message sid w =
         respond e message sid (fst (beginTurn message sid ctx w))
           (fst (snd (beginTurn message sid ctx w))) (snd (snd (beginTurn message sid ctx w))) \<and>
       (\<exists>ctx'. sessions (snd (generateResponse e message sid w)) sid = Some ctx' \<and>
          appointmentState ctx' = appointmentState ctx))"
proof (intro conjI impI)
  show "handleAppointmentFlow r message ctx sid w = (None, ctx, w)"
    using t d trig by (rule handler_guard)
next
  assume hit: "sessions w sid = Some ctx"
  let ?B = "beginTurn message sid ctx w"
  let ?ctxB = "fst (snd ?B)" and ?wB = "snd (snd ?B)"
  have st: "appointmentState ?ctxB = appointmentState ctx" by (rule beginTurn_state)
  then have tB: "askedAppointmentType ?ctxB" and dB: "\<not> askedAppointmentDate ?ctxB"
    using t d by (simp_all add: appointmentState_def)
  have h: "handleAppointmentFlow (rnd e) message ?ctxB sid ?wB = (None, ?ctxB, ?wB)"
    using tB dB trig by (rule handler_guard)
  have fl: "inFlow ?ctxB" using tB by (simp add: inFlow_def)
  show gen: "generateResponse e message sid w = respond e message sid (fst ?B) ?ctxB ?wB"
    using fl h
    by (simp add: generateResponse_def loadContext_hit [OF hit] Let_def case_prod_beta
        answered_def)
  have "flowStep message (appointmentState ctx) = appointmentState ctx"
    using t d trig by (simp add: appointmentState_def flowStep_guard)
  with respond_state [of e message sid "fst ?B" ?ctxB ?wB] st
  show "\<exists>ctx'. sessions (snd (generateResponse e message sid w)) sid = Some ctx' \<and>
          appointmentState ctx' = appointmentState ctx"
    unfolding gen by (auto split: if_splits)
qed

theorem booking_trigger_is_not_a_type_answer_witness:
  "handleAppointmentFlow 0 ''Book Now'' waitingForType ''s1'' waitingWorld =
     (None, waitingForType, waitingWorld) \<and>
   (\<exists>ctx'. sessions (snd (generateResponse ruleBased ''Book Now'' ''s1'' waitingWorld)) ''s1''
        = Some ctx' \<and>
      appointmentState ctx' = appointmentState waitingForType)"
proof -
  have a: "askedAppointmentType waitingForType"
    by (simp add: waitingForType_def)
  have b: "\<not> askedAppointmentDate waitingForType"
    by (simp add: waitingForType_def freshContext_def)
  have c: "toLowerCase ''Book Now'' \<in> set bookingTriggers" by code_simp
  have d: "sessions waitingWorld ''s1'' = Some waitingForType"
    by (simp add: waitingWorld_def)
  from booking_trigger_is_not_a_type_answer [OF a b c, of 0 "''s1''" waitingWorld ruleBased] d
  show ?thesis by blast
qed

subsection \<open>The round trip of the flow (C6)\<close>

text \<open>
  C6: from a context in the idle appointment state, four consecutive turns (a
  booking-trigger phrase, up to case and outer blanks; a type answer, that is a message
  of ASCII characters that is not a trigger phrase; a date answer; a reason answer)
  take the appointment
  state through type asked, date asked with the type stored, reason asked with the date
  stored, and back to idle with all flags false and all values cleared. The session id
  is not empty, as with every call from the chat endpoint.
\<close>

theorem appointment_round_trip:
  assumes idle: "appointmentState (fst (loadContext sid w)) = idleState"
    and sid: "sid \<noteq> []"
    and trig: "trim (toLowerCase m1) \<in> set bookingTriggers"
    and ans: "toLowerCase m2 \<notin> set bookingTriggers"
    and asc: "asciiText m2"
  shows
   "map_option appointmentState (sessions (runTurns [(e1, m1)] sid w) sid) =
      Some (True, False, False, None, None, None) \<and>
    map_option appointmentState (sessions (runTurns [(e1, m1), (e2, m2)] sid w) sid) =
      Some (True, True, False, Some m2, None, None) \<and>
    map_option appointmentState
        (sessions (runTurns [(e1, m1), (e2, m2), (e3, m3)] sid w) sid) =
      Some (True, True, True, Some m2, Some m3, None) \<and>
    map_option appointmentState
        (sessions (runTurns [(e1, m1), (e2, m2), (e3, m3), (e4, m4)] sid w) sid) =
      Some idleState"
proof -
  let ?w1 = "snd (generateResponse e1 m1 sid w)"
  let ?w2 = "snd (generateResponse e2 m2 sid ?w1)"
  let ?w3 = "snd (generateResponse e3 m3 sid ?w2)"
  let ?w4 = "snd (generateResponse e4 m4 sid ?w3)"
  have nfl: "\<not> inFlow (fst (loadContext sid w))"
    using idle by (simp add: appointmentState_def idleState_def inFlow_def)
  from idle_trigger_turn [OF nfl trig sid, of e1]
  obtain c1 where c1: "sessions ?w1 sid = Some c1"
    "appointmentState c1 = (True, False, False, None, None, None)"
    using idle by (auto simp: idleState_def flowStep_start)
  have "inFlow c1" "\<not> (askedAppointmentType c1 \<and> \<not> askedAppointmentDate c1 \<and>
      toLowerCase m2 \<in> set bookingTriggers)"
    using c1(2) ans by (simp_all add: appointmentState_def inFlow_def)
  from in_flow_turn [OF c1(1) this sid, of e2]
  obtain c2 where c2: "sessions ?w2 sid = Some c2"
    "appointmentState c2 = (True, True, False, Some m2, None, None)"
    using c1(2) ans by (auto simp: flowStep_def)
  have "inFlow c2" "\<not> (askedAppointmentType c2 \<and> \<not> askedAppointmentDate c2 \<and>
      toLowerCase m3 \<in> set bookingTriggers)"
    using c2(2) by (simp_all add: appointmentState_def inFlow_def)
  from in_flow_turn [OF c2(1) this sid, of e3]
  obtain c3 where c3: "sessions ?w3 sid = Some c3"
    "appointmentState c3 = (True, True, True, Some m2, Some m3, None)"
    using c2(2) by (auto simp: flowStep_def)
  have "inFlow c3" "\<not> (askedAppointmentType c3 \<and> \<not> askedAppointmentDate c3 \<and>
      toLowerCase m4 \<in> set bookingTriggers)"
    using c3(2) by (simp_all add: appointmentState_def inFlow_def)
  from in_flow_turn [OF c3(1) this sid, of e4]
  obtain c4 where c4: "sessions ?w4 sid = Some c4" "appointmentState c4 = idleState"
    using c3(2) by (auto simp: flowStep_def)
  from c1 c2 c3 c4 show ?thesis by simp
qed

theorem appointment_round_trip_witness:
  "map_option appointmentState
     (sessions (runTurns [(ruleBased, '' Book now''), (ruleBased, ''General Checkup''),
        (ruleBased, ''Tomorrow''), (ruleBased, ''Routine Checkup'')] ''s1'' initialWorld) ''s1'') =
   Some idleState"
proof -
  have a: "appointmentState (fst (loadContext ''s1'' initialWorld)) = idleState"
    by (simp add: loadContext_def initialWorld_def freshContext_def appointmentState_def
        idleState_def)
  have b: "''s1'' \<noteq> []" by simp
  have c: "trim (toLowerCase '' Book now'') \<in> set bookingTriggers" by code_simp
  have d: "toLowerCase ''General Checkup'' \<notin> set bookingTriggers" by code_simp
  have f: "asciiText ''General Checkup''" by code_simp
  from appointment_round_trip [OF a b c d f, of ruleBased ruleBased ruleBased "''Tomorrow''"
      ruleBased "''Routine Checkup''"]
  show ?thesis by blast
qed

subsection \<open>Starting the flow (C8)\<close>

text \<open>
  C8, as stated, has the flow start only on a trigger phrase. The last branch of
  \<open>handleAppointmentFlow\<close> starts the flow for any message when the type has not been
  asked, and the template branch of \<open>generateResponse\<close> for the appointment intent
  calls it: \<open>I need an appointment\<close>, which is no trigger phrase, starts the flow from
  the idle state when there is no generated text.
\<close>

theorem flow_start_needs_no_trigger_counterexample:
  "trim (toLowerCase ''I need an appointment'') \<notin> set bookingTriggers \<and>
   map_option appointmentState (sessions (openSession ''s1'' initialWorld) ''s1'') =
     Some idleState \<and>
   map_option askedAppointmentType
     (sessions (snd (generateResponse ruleBased ''I need an appointment'' ''s1''
        (openSession ''s1'' initialWorld))) ''s1'') = Some True"
  by code_simp

text \<open>
  C8 as amended: from the idle state (no appointment flag set) a turn with a message
  of ASCII characters starts the flow,
  setting \<open>askedAppointmentType\<close>, exactly when the message has the appointment intent
  and either its lower-cased, trimmed text is one of the booking-trigger phrases (book
  now, schedule appointment, book, schedule, check availability) or the generative
  hook gives no text, so that the template branch asks the flow controller, which
  starts the flow for any message; every trigger phrase has the appointment intent.
  For every other message processed from idle (any intent but appointment, or a
  non-trigger appointment message answered by generated text) the flow is not started
  and \<open>askedAppointmentType\<close> stays false. (Session id not empty.)
\<close>

theorem flow_start_from_idle:
  assumes idle: "\<not> inFlow (fst (loadContext sid w))" and sid: "sid \<noteq> []"
    and asc: "asciiText m"
  shows "\<exists>ctx'. sessions (snd (generateResponse e m sid w)) sid = Some ctx' \<and>
      askedAppointmentType ctx' =
        (detectIntent m = IAppointment \<and>
           (trim (toLowerCase m) \<in> set bookingTriggers \<or>
            \<not> (aiAvailable e \<and> truthy (aiReply e)))) \<and>
      (trim (toLowerCase m) \<in> set bookingTriggers \<longrightarrow> detectIntent m = IAppointment)"
proof -
  let ?ctx0 = "fst (loadContext sid w)"
  from idle have f: "\<not> askedAppointmentType ?ctx0" "\<not> askedAppointmentDate ?ctx0"
    "\<not> askedAppointmentReason ?ctx0" by (simp_all add: inFlow_def)
  then have fs: "flowStep m (appointmentState ?ctx0) =
      (True, False, False, appointmentType ?ctx0, appointmentDate ?ctx0, appointmentReason ?ctx0)"
    by (simp add: appointmentState_def flowStep_start)
  from idle_turn_state [OF idle sid, of e m]
  obtain ctx' where c: "sessions (snd (generateResponse e m sid w)) sid = Some ctx'"
    "appointmentState ctx' =
        (if detectIntent m = IAppointment \<and>
            (trim (toLowerCase m) \<in> set bookingTriggers \<or>
             \<not> (aiAvailable e \<and> truthy (aiReply e)))
         then flowStep m (appointmentState ?ctx0) else appointmentState ?ctx0)"
    by blast
  from c(2) fs f have "askedAppointmentType ctx' =
        (detectIntent m = IAppointment \<and>
           (trim (toLowerCase m) \<in> set bookingTriggers \<or>
            \<not> (aiAvailable e \<and> truthy (aiReply e))))"
    by (auto simp: appointmentState_def split: if_splits)
  with c(1) trigger_intent [of m] show ?thesis by blast
qed

theorem flow_start_from_idle_witness:
  "\<exists>ctx'. sessions (snd (generateResponse \<lparr>rnd = 1, aiAvailable = True,
        aiReply = Some ''Our clinic is open on weekdays.''\<rparr> ''I need an appointment'' ''s1''
        initialWorld)) ''s1'' = Some ctx' \<and> \<not> askedAppointmentType ctx'"
proof -
  let ?e = "\<lparr>rnd = 1, aiAvailable = True, aiReply = Some ''Our clinic is open on weekdays.''\<rparr>"
  have a: "\<not> inFlow (fst (loadContext ''s1'' initialWorld))"
    by (simp add: loadContext_def initialWorld_def freshContext_def inFlow_def)
  have b: "''s1'' \<noteq> []" by simp
  have c: "trim (toLowerCase ''I need an appointment'') \<notin> set bookingTriggers" by code_simp
  have d: "aiAvailable ?e \<and> truthy (aiReply ?e)" by (simp add: truthy_def)
  have f: "asciiText ''I need an appointment''" by code_simp
  from flow_start_from_idle [OF a b f, of ?e] c d
  show ?thesis by auto
qed

subsection \<open>An emergency message during a booking (C1)\<close>

text \<open>
  C1, as stated, has the emergency path pre-empt the booking flow. \<open>generateResponse\<close>
  asks the flow first when a flag is set (its comment: check appointment flow BEFORE
  emergency),
  and the flow answers: after \<open>Book Now\<close>, the message \<open>I have chest pain\<close> is stored
  as the appointment type, the date is asked, no alert is sent and the reply carries
  no triage.
\<close>

theorem booking_flow_precedes_emergency_counterexample:
  "list_ex (str_includes (toLowerCase ''I have chest pain'')) (tl_keywords emergencyLevel) \<and>
   map_option appointmentState (sessions bookingStarted ''s1'') =
     Some (True, False, False, None, None, None) \<and>
   map_option appointmentState
     (sessions (snd (generateResponse ruleBased ''I have chest pain'' ''s1'' bookingStarted))
        ''s1'') = Some (True, True, False, Some ''I have chest pain'', None, None) \<and>
   alerts (snd (generateResponse ruleBased ''I have chest pain'' ''s1'' bookingStarted)) = [] \<and>
   r_triage (fst (generateResponse ruleBased ''I have chest pain'' ''s1'' bookingStarted)) = None"
  by code_simp

text \<open>
  C1 as amended: for every session in which at least one appointment asked-flag is
  true, a message that contains an emergency keyword (or has the emergency intent) is
  consumed by the booking flow, which is asked before the emergency check: the reply
  is the flow controller's and carries no triage, no alert is emitted, the emergency
  counter and the generative hook are left alone, and the appointment state advances
  with the message stored as the pending answer (as the type when the type was asked
  and the date was not, else as the date when the date was asked and the reason was
  not, else as the reason, which completes and resets the flow). (Session id not
  empty.)
\<close>

theorem emergency_keyword_during_booking:
  assumes hit: "sessions w sid = Some ctx" and fl: "inFlow ctx" and sid: "sid \<noteq> []"
    and em: "list_ex (str_includes (toLowerCase m)) (tl_keywords emergencyLevel) \<or>
             detectIntent m = IEmergency"
  shows "\<exists>ctx' fr. sessions (snd (generateResponse e m sid w)) sid = Some ctx' \<and>
      fst (generateResponse e m sid w) = flowResult fr \<and>
      r_triage (fst (generateResponse e m sid w)) = None \<and>
      alerts (snd (generateResponse e m sid w)) = alerts w \<and>
      stats (snd (generateResponse e m sid w)) = stats w \<and>
      aiCalls (snd (generateResponse e m sid w)) = aiCalls w \<and>
      appointmentState ctx' \<noteq> appointmentState ctx \<and>
      appointmentState ctx' =
        (if askedAppointmentType ctx \<and> \<not> askedAppointmentDate ctx
         then (True, True, askedAppointmentReason ctx, Some m, appointmentDate ctx,
               appointmentReason ctx)
         else if askedAppointmentDate ctx \<and> \<not> askedAppointmentReason ctx
         then (askedAppointmentType ctx, True, True, appointmentType ctx, Some m,
               appointmentReason ctx)
         else idleState)"
proof -
  from em have nt: "toLowerCase m \<notin> set bookingTriggers"
    using keyword_not_trigger emergency_not_trigger by blast
  then have ng: "\<not> (askedAppointmentType ctx \<and> \<not> askedAppointmentDate ctx \<and>
                toLowerCase m \<in> set bookingTriggers)" by simp
  from in_flow_turn [OF hit fl ng sid, of e]
  obtain ctx' fr where c: "sessions (snd (generateResponse e m sid w)) sid = Some ctx'"
      "appointmentState ctx' = flowStep m (appointmentState ctx)"
      "fst (generateResponse e m sid w) = flowResult fr"
      "alerts (snd (generateResponse e m sid w)) = alerts w"
      "stats (snd (generateResponse e m sid w)) = stats w"
      "aiCalls (snd (generateResponse e m sid w)) = aiCalls w"
    by blast
  have step: "flowStep m (appointmentState ctx) =
        (if askedAppointmentType ctx \<and> \<not> askedAppointmentDate ctx
         then (True, True, askedAppointmentReason ctx, Some m, appointmentDate ctx,
               appointmentReason ctx)
         else if askedAppointmentDate ctx \<and> \<not> askedAppointmentReason ctx
         then (askedAppointmentType ctx, True, True, appointmentType ctx, Some m,
               appointmentReason ctx)
         else idleState)"
    using nt fl by (auto simp: flowStep_def appointmentState_def inFlow_def)
  have neq: "flowStep m (appointmentState ctx) \<noteq> appointmentState ctx"
    unfolding step using fl by (auto simp: appointmentState_def inFlow_def idleState_def)
  have "r_triage (flowResult fr) = None" by (simp add: flowResult_def plainResult_def)
  with c step neq show ?thesis
    by (intro exI [of _ ctx'] exI [of _ fr]) simp
qed

theorem emergency_keyword_during_booking_witness:
  "\<exists>ctx'. sessions (snd (generateResponse ruleBased ''I can't breathe'' ''s1'' waitingWorld)) ''s1''
       = Some ctx' \<and>
     appointmentState ctx' = (True, True, False, Some ''I can't breathe'', None, None) \<and>
     alerts (snd (generateResponse ruleBased ''I can't breathe'' ''s1'' waitingWorld)) =
       alerts waitingWorld"
proof -
  have a: "sessions waitingWorld ''s1'' = Some waitingForType" by (simp add: waitingWorld_def)
  have b: "inFlow waitingForType" by (simp add: waitingForType_def inFlow_def)
  have c: "''s1'' \<noteq> []" by simp
  have d: "list_ex (str_includes (toLowerCase ''I can't breathe'')) (tl_keywords emergencyLevel) \<or>
             detectIntent ''I can't breathe'' = IEmergency" by code_simp
  have e: "askedAppointmentType waitingForType \<and> \<not> askedAppointmentDate waitingForType \<and>
      askedAppointmentReason waitingForType = False \<and> appointmentDate waitingForType = None \<and>
      appointmentReason waitingForType = None"
    by (simp add: waitingForType_def freshContext_def)
  from emergency_keyword_during_booking [OF a b c d, of ruleBased] e
  show ?thesis by auto
qed

subsection \<open>The emergency path (C3)\<close>

text \<open>
  C3, as stated, holds for every message of emergency intent. In a session that is in
  the booking flow the flow answers first: after \<open>Book Now\<close> and \<open>General Checkup\<close>,
  the message \<open>I have severe chest pain\<close> has the emergency intent, and the reply is
  not an emergency template, carries no triage, and no alert is sent.
\<close>

theorem emergency_intent_during_booking_counterexample:
  "detectIntent ''I have severe chest pain'' = IEmergency \<and>
   r_response (fst (generateResponse ruleBased ''I have severe chest pain'' ''s1'' typeGiven))
     \<notin> set emergencyResponses \<and>
   r_triage (fst (generateResponse ruleBased ''I have severe chest pain'' ''s1'' typeGiven))
     = None \<and>
   length (alerts (snd (generateResponse ruleBased ''I have severe chest pain'' ''s1''
     typeGiven))) = 0"
  by code_simp

text \<open>
  C3 as amended: for every message of ASCII characters classified as emergency intent
  that is processed
  while no appointment asked-flag is true, the generative hook is not invoked, the
  response is one of the deterministic emergency templates, the returned triage
  urgency is CRITICAL, and exactly one emergency alert is emitted for the turn. While
  an appointment asked-flag is true the booking flow answers the turn instead: the
  hook is not invoked either, the reply carries no triage and no alert is emitted.
\<close>

theorem emergency_intent_path:
  assumes em: "detectIntent m = IEmergency" and asc: "asciiText m"
  shows "(\<not> inFlow (fst (loadContext sid w)) \<longrightarrow>
      aiCalls (snd (generateResponse e m sid w)) = aiCalls w \<and>
      r_response (fst (generateResponse e m sid w)) \<in> set emergencyResponses \<and>
      map_option reportUrgency (r_triage (fst (generateResponse e m sid w))) = Some CRITICAL \<and>
      alerts (snd (generateResponse e m sid w)) = alerts w @ [(sid, m)]) \<and>
    (inFlow (fst (loadContext sid w)) \<longrightarrow>
      aiCalls (snd (generateResponse e m sid w)) = aiCalls w \<and>
      r_triage (fst (generateResponse e m sid w)) = None \<and>
      alerts (snd (generateResponse e m sid w)) = alerts w)"
proof (intro conjI impI)
  assume idle: "\<not> inFlow (fst (loadContext sid w))"
  let ?ctx0 = "fst (loadContext sid w)" and ?w0 = "snd (loadContext sid w)"
  let ?B = "beginTurn m sid ?ctx0 ?w0"
  have nt: "trim (toLowerCase m) \<notin> set bookingTriggers"
    using em trigger_intent [of m] by auto
  have "tf_intent (fst ?B) = IEmergency" using em by (simp add: beginTurn_intent)
  then have gen: "generateResponse e m sid w =
      emergencyReply e m sid (fst (snd ?B)) (snd (snd ?B))"
    by (simp add: idle_other_turn [OF idle nt] respond_emergency)
  have w: "alerts (snd (snd ?B)) = alerts w" "aiCalls (snd (snd ?B)) = aiCalls w"
    using loadContext_world [of sid w] by (simp_all add: beginTurn_world)
  have ne: "emergencyResponses \<noteq> []" by (simp add: emergencyResponses_def)
  from emergencyReply_facts [of e m sid "fst (snd ?B)" "snd (snd ?B)"] w pick_in_set [OF ne, of "rnd e"]
  show "aiCalls (snd (generateResponse e m sid w)) = aiCalls w"
    and "r_response (fst (generateResponse e m sid w)) \<in> set emergencyResponses"
    and "map_option reportUrgency (r_triage (fst (generateResponse e m sid w))) = Some CRITICAL"
    and "alerts (snd (generateResponse e m sid w)) = alerts w @ [(sid, m)]"
    by (simp_all add: gen reportUrgency_def)
next
  assume fl: "inFlow (fst (loadContext sid w))"
  let ?ctx = "fst (loadContext sid w)"
  have hit: "sessions w sid = Some ?ctx" using fl by (rule loadContext_inFlow)
  have ng: "\<not> (askedAppointmentType ?ctx \<and> \<not> askedAppointmentDate ?ctx \<and>
                toLowerCase m \<in> set bookingTriggers)"
    using emergency_not_trigger [OF em] by simp
  let ?H = "handleAppointmentFlow (rnd e) m (fst (snd (beginTurn m sid ?ctx w))) sid
      (snd (snd (beginTurn m sid ?ctx w)))"
  from generateResponse_in_flow [OF hit fl ng, of e]
  obtain fr where gen: "generateResponse e m sid w = (flowResult fr, snd (snd ?H))" by blast
  from handler_world [of "rnd e" m "fst (snd (beginTurn m sid ?ctx w))" sid
      "snd (snd (beginTurn m sid ?ctx w))"]
  show "aiCalls (snd (generateResponse e m sid w)) = aiCalls w"
    and "r_triage (fst (generateResponse e m sid w)) = None"
    and "alerts (snd (generateResponse e m sid w)) = alerts w"
    by (simp_all add: gen beginTurn_world flowResult_def plainResult_def)
qed

theorem emergency_intent_path_witness:
  "r_response (fst (generateResponse \<lparr>rnd = 4, aiAvailable = True, aiReply = Some ''Stay calm.''\<rparr>
       ''I have severe chest pain'' ''s1'' initialWorld)) \<in> set emergencyResponses \<and>
   alerts (snd (generateResponse \<lparr>rnd = 4, aiAvailable = True, aiReply = Some ''Stay calm.''\<rparr>
       ''I have severe chest pain'' ''s1'' initialWorld)) = [(''s1'', ''I have severe chest pain'')] \<and>
   aiCalls (snd (generateResponse \<lparr>rnd = 4, aiAvailable = True, aiReply = Some ''Stay calm.''\<rparr>
       ''I have severe chest pain'' ''s1'' initialWorld)) = 0"
proof -
  have a: "detectIntent ''I have severe chest pain'' = IEmergency" by code_simp
  have b: "\<not> inFlow (fst (loadContext ''s1'' initialWorld))"
    by (simp add: loadContext_def initialWorld_def freshContext_def inFlow_def)
  have c: "asciiText ''I have severe chest pain''" by code_simp
  from emergency_intent_path [OF a c, of "''s1''" initialWorld] b
  show ?thesis by (simp add: initialWorld_def)
qed

subsection \<open>Hydration (C9)\<close>

lemma hydrate_idle: "appointmentState (hydrate row messages) = idleState"
  by (simp add: hydrate_def appointmentState_def idleState_def)

text \<open>
  C9 asks that a context hydrated from the store has the asked-flags with their
  persisted values. The context that \<open>syncSessionsFromDB\<close> and the cold read build has
  no appointment flag, whatever the store holds. After \<open>Book Now\<close> and
  \<open>General Checkup\<close> the store holds \<open>askedAppointmentType\<close> and
  \<open>askedAppointmentDate\<close> as true; after a restart, or with the session missing from
  the cache, the context is idle and \<open>Tomorrow\<close> is not taken as the date, where the
  running process takes it and asks for the reason.
\<close>

theorem cold_read_drops_appointment_flags:
  "map_option (\<lambda>row. (md_askedAppointmentType (row_metadata row),
        md_askedAppointmentDate (row_metadata row))) (db_sessions (db typeGiven) ''s1'') =
     Some (Some True, Some True) \<and>
   map_option appointmentState (sessions typeGiven ''s1'') =
     Some (True, True, False, Some ''General Checkup'', None, None) \<and>
   map_option appointmentState (sessions (restart typeGiven) ''s1'') = Some idleState \<and>
   map_option appointmentState
     (sessions (snd (generateResponse ruleBased ''Tomorrow'' ''s1'' (restart typeGiven))) ''s1'') =
     Some idleState \<and>
   map_option appointmentState
     (sessions (snd (generateResponse ruleBased ''Tomorrow'' ''s1''
        (typeGiven\<lparr>sessions := Map.empty\<rparr>))) ''s1'') = Some idleState \<and>
   map_option appointmentState
     (sessions (snd (generateResponse ruleBased ''Tomorrow'' ''s1'' typeGiven)) ''s1'') =
     Some (True, True, True, Some ''General Checkup'', Some ''Tomorrow'', None)"
  by code_simp


end
